theory Spec2Isabelle
  imports Complex_Main
begin

section \<open>Garage management backend: data model\<close>

text \<open>
  The server (\<^verbatim>\<open>src/server.js\<close>) is an Express application over a PostgreSQL store.
  Every handler is a sequence of SQL statements, so the model is explicit state passing
  over a record of tables. A table is the list of its rows in insertion order; an
  \<^verbatim>\<open>INSERT\<close> appends, a \<^verbatim>\<open>DELETE ... WHERE\<close> filters, an \<^verbatim>\<open>UPDATE ... WHERE\<close> maps.

  Modelling decisions, all of them visible in the definitions below:
  \<^item> A number that a request carries or a column holds is a rational (\<open>number\<close>). The
    arithmetic of the invoice handlers is the arithmetic of JavaScript: IEEE 754 binary64
    with round to nearest, ties to even, NaN and the two infinities (\<open>jsnum\<close>); the two
    zeros are not told apart. Identifiers are natural numbers, points in time are
    integers.
  \<^item> A request body is a record of typed fields. A field the body may omit is an
    \<open>option\<close>; the falsiness tests of the source (\<^verbatim>\<open>!x\<close>) are written out on it.
    Only the two fields of the add-payment body that the source converts itself
    (\<^verbatim>\<open>Number(amount)\<close>, \<^verbatim>\<open>new Date(payment_date)\<close>) are untyped JSON scalars.
  \<^item> The database schema is not part of the repository. A statement does what its SQL
    text says on the tables and never fails on a constraint; keys are assigned from a
    counter per table. \<^verbatim>\<open>ROLLBACK\<close> restores the state as of \<^verbatim>\<open>BEGIN\<close>.
  \<^item> The \<^verbatim>\<open>status\<close> column of \<^verbatim>\<open>vehicle_services\<close> is a string (never NULL). The amount
    columns of \<^verbatim>\<open>invoices\<close> and \<^verbatim>\<open>invoice_items\<close> keep the JavaScript number the
    statement passes, NaN included, and are read back as their decimal text.
\<close>

type_synonym number = rat
type_synonym timestamp = int

subsection \<open>JavaScript numbers\<close>

text \<open>
  A value of the JavaScript type Number: NaN, an infinity, or a finite value. The finite
  results of the operations below are binary64 values.
\<close>

datatype jsnum = NaN | PInf | NInf | Fin rat

text \<open>The number of binary digits of a positive integer.\<close>

function bits :: "int \<Rightarrow> int" where
  "bits n = (if n \<le> 0 then 0 else 1 + bits (n div 2))"
  by pat_completeness auto
termination
  by (relation "measure nat") auto

declare bits.simps [simp del]

text \<open>For \<open>0 < a\<close>: the \<open>k\<close> with \<open>2 ^ k \<le> a < 2 ^ (k + 1)\<close>.\<close>

definition floor_log2 :: "rat \<Rightarrow> int" where
  "floor_log2 a =
     (if 1 \<le> a then bits \<lfloor>a\<rfloor> - 1 else - bits (\<lceil>1 / a\<rceil> - 1))"

definition pow2 :: "int \<Rightarrow> rat" where
  "pow2 e = (if 0 \<le> e then 2 ^ nat e else 1 / 2 ^ nat (- e))"

definition round_half_even :: "rat \<Rightarrow> int" where
  "round_half_even x =
     (let f = \<lfloor>x\<rfloor>; r = x - of_int f
      in if r < 1 / 2 then f
         else if 1 / 2 < r then f + 1
         else if even f then f else f + 1)"

text \<open>
  The binary64 value nearest to a rational, ties to even: a significand of 53 bits
  (\<open>m\<close>) at the exponent \<open>e\<close> of the value, not below the exponent -1074 of the subnormal
  numbers; a result of 2 to the 1024 or more is an infinity.
\<close>

definition binary64 :: "rat \<Rightarrow> jsnum" where
  "binary64 x =
     (if x = 0 then Fin 0
      else (let a = \<bar>x\<bar>;
                e = max (floor_log2 a - 52) (- 1074)
            in if 971 < e then (if 0 < x then PInf else NInf)
               else (let m = round_half_even (a / pow2 e)
                     in if e = 971 \<and> 9007199254740992 \<le> m
                        then (if 0 < x then PInf else NInf)
                        else Fin (if 0 < x then of_int m * pow2 e
                                  else - (of_int m * pow2 e)))))"

text \<open>\<^verbatim>\<open>x + y\<close> and \<^verbatim>\<open>x * y\<close> on numbers.\<close>

fun fadd :: "jsnum \<Rightarrow> jsnum \<Rightarrow> jsnum" where
  "fadd NaN y = NaN"
| "fadd x NaN = NaN"
| "fadd (Fin a) (Fin b) = binary64 (a + b)"
| "fadd PInf NInf = NaN"
| "fadd NInf PInf = NaN"
| "fadd PInf y = PInf"
| "fadd NInf y = NInf"
| "fadd (Fin a) y = y"

fun fmul :: "jsnum \<Rightarrow> jsnum \<Rightarrow> jsnum" where
  "fmul NaN y = NaN"
| "fmul x NaN = NaN"
| "fmul (Fin a) (Fin b) = binary64 (a * b)"
| "fmul (Fin a) PInf = (if a = 0 then NaN else if 0 < a then PInf else NInf)"
| "fmul (Fin a) NInf = (if a = 0 then NaN else if 0 < a then NInf else PInf)"
| "fmul PInf (Fin b) = (if b = 0 then NaN else if 0 < b then PInf else NInf)"
| "fmul NInf (Fin b) = (if b = 0 then NaN else if 0 < b then NInf else PInf)"
| "fmul PInf PInf = PInf"
| "fmul PInf NInf = NInf"
| "fmul NInf PInf = NInf"
| "fmul NInf NInf = PInf"

text \<open>\<^verbatim>\<open>Math.round(x)\<close>: the integer nearest to \<open>x\<close>, a tie going up.\<close>

fun Math_round :: "jsnum \<Rightarrow> jsnum" where
  "Math_round (Fin x) = Fin (of_int \<lfloor>x + 1 / 2\<rfloor>)"
| "Math_round x = x"

text \<open>
  \<^verbatim>\<open>Number(s)\<close> where \<open>s\<close> is the text of a stored amount: the binary64 value nearest to
  it.
\<close>

fun Number_of_text :: "jsnum \<Rightarrow> jsnum" where
  "Number_of_text (Fin x) = binary64 x"
| "Number_of_text x = x"

subsection \<open>Rows\<close>

record part =
  p_id :: nat
  p_name :: string
  p_part_number :: string
  p_purchasing_cost :: number
  p_selling_cost :: number
  p_quantity_in_stock :: number

record worker =
  w_id :: nat
  w_name :: string
  w_job_title :: "string option"
  w_phone :: "string option"
  w_email :: "string option"

record service =
  s_id :: nat
  s_name :: string
  s_category :: string
  s_worker_id :: "nat option"

record vehicle =
  v_id :: nat
  v_plate :: string
  v_make :: "string option"
  v_model_name :: "string option"
  v_year :: "nat option"
  v_vin :: "string option"
  v_owner :: string
  v_contact_number :: string
  v_entry_time :: timestamp
  v_exit_time :: "timestamp option"

record vehicle_service =
  vs_vehicle_id :: nat
  vs_service_id :: nat
  vs_status :: string
  vs_completed_time :: "timestamp option"

record vehicle_part =
  vp_vehicle_id :: nat
  vp_part_id :: nat
  vp_quantity :: number

record vehicle_service_part =
  vsp_vehicle_id :: nat
  vsp_service_id :: nat
  vsp_part_id :: nat
  vsp_quantity :: number

record invoice =
  i_id :: nat
  i_vehicle_id :: nat
  i_days_in_garage :: number
  i_garage_stay_rate :: number
  i_subtotal :: jsnum
  i_tax :: jsnum
  i_total :: jsnum

record invoice_item =
  ii_id :: nat
  ii_invoice_id :: nat
  ii_item_type :: string
  ii_item_id :: nat
  ii_description :: "string option"
  ii_quantity :: "number option"
  ii_purchased_cost :: "number option"
  ii_unit_price :: jsnum
  ii_total :: jsnum

record worker_payment =
  wp_id :: nat
  wp_worker_id :: nat
  wp_amount :: number
  wp_method :: "string option"
  wp_notes :: "string option"
  wp_payment_date :: timestamp

subsection \<open>The store\<close>

record db =
  parts :: "part list"
  workers :: "worker list"
  services :: "service list"
  vehicles :: "vehicle list"
  vehicle_services :: "vehicle_service list"
  vehicle_parts :: "vehicle_part list"
  vehicle_service_parts :: "vehicle_service_part list"
  invoices :: "invoice list"
  invoice_items :: "invoice_item list"
  worker_payments :: "worker_payment list"
  parts_seq :: nat
  workers_seq :: nat
  vehicles_seq :: nat
  invoices_seq :: nat
  invoice_items_seq :: nat
  worker_payments_seq :: nat

subsection \<open>Responses\<close>

text \<open>The four amounts the invoice PDF prints in its totals block.\<close>

record pdf_totals =
  pdf_garage_stay :: jsnum
  pdf_subtotal :: jsnum
  pdf_tax :: jsnum
  pdf_total :: jsnum

datatype payload =
    Message string
  | InvoiceCreated nat
  | VehicleRow vehicle
  | PaymentRow worker_payment
  | PartRow part
  | WorkerRow worker
  | ServiceRow service
  | InvoicePdf pdf_totals "invoice_item list"
  | NoContent

text \<open>\<open>Success code body\<close> and \<open>Failure code error\<close>: the HTTP status and the JSON sent.\<close>

datatype response = Success nat payload | Failure nat string

subsection \<open>Falsiness of optional request fields\<close>

text \<open>
  \<^verbatim>\<open>!x\<close> holds of \<^verbatim>\<open>undefined\<close>, of the number 0 and of the empty string.
\<close>

fun falsy_num :: "number option \<Rightarrow> bool" where
  "falsy_num None = True"
| "falsy_num (Some n) = (n = 0)"

fun falsy_id :: "nat option \<Rightarrow> bool" where
  "falsy_id None = True"
| "falsy_id (Some n) = (n = 0)"

fun falsy_str :: "string option \<Rightarrow> bool" where
  "falsy_str None = True"
| "falsy_str (Some s) = (s = [])"

section \<open>Invoices\<close>

subsection \<open>POST /api/invoices\<close>

record service_line =
  sl_id :: nat
  sl_description :: "string option"
  sl_unit_price :: "number option"

text \<open>A part line may come without \<^verbatim>\<open>quantity\<close>; the handler does not test it.\<close>

record part_line =
  pl_id :: nat
  pl_description :: "string option"
  pl_quantity :: "number option"

text \<open>
  \<open>ir_services\<close> and \<open>ir_parts\<close> are \<open>None\<close> when the body's value is not an array
  (\<^verbatim>\<open>Array.isArray\<close> fails and the loop is skipped).
\<close>

record invoice_request =
  ir_vehicle_id :: "nat option"
  ir_days_in_garage :: "number option"
  ir_services :: "service_line list option"
  ir_parts :: "part_line list option"

definition insert_invoice :: "nat \<Rightarrow> number \<Rightarrow> db \<Rightarrow> nat \<times> db" where
  "insert_invoice vehicle_id days_in_garage d =
     (invoices_seq d,
      d\<lparr>invoices := invoices d @
           [\<lparr>i_id = invoices_seq d, i_vehicle_id = vehicle_id,
             i_days_in_garage = days_in_garage, i_garage_stay_rate = 5000,
             i_subtotal = Fin 0, i_tax = Fin 0, i_total = Fin 0\<rparr>],
        invoices_seq := Suc (invoices_seq d)\<rparr>)"

definition insert_invoice_item ::
  "nat \<Rightarrow> string \<Rightarrow> nat \<Rightarrow> string option \<Rightarrow> number option \<Rightarrow> number option \<Rightarrow> jsnum
     \<Rightarrow> jsnum \<Rightarrow> db \<Rightarrow> db" where
  "insert_invoice_item invoiceId item_type item_id description quantity purchased_cost
       unit_price line_total d =
     d\<lparr>invoice_items := invoice_items d @
          [\<lparr>ii_id = invoice_items_seq d, ii_invoice_id = invoiceId, ii_item_type = item_type,
            ii_item_id = item_id, ii_description = description, ii_quantity = quantity,
            ii_purchased_cost = purchased_cost, ii_unit_price = unit_price,
            ii_total = line_total\<rparr>],
       invoice_items_seq := Suc (invoice_items_seq d)\<rparr>"

text \<open>
  \<^verbatim>\<open>svc.unit_price || 0\<close> on a numeric field; \<^verbatim>\<open>parseFloat\<close> then reads the number back
  from its text, which is the number itself.
\<close>

fun unit_price_or_0 :: "number option \<Rightarrow> number" where
  "unit_price_or_0 None = 0"
| "unit_price_or_0 (Some p) = p"

text \<open>\<^verbatim>\<open>Number(part.quantity)\<close>: NaN when the line has no quantity.\<close>

fun Number_of_quantity :: "number option \<Rightarrow> jsnum" where
  "Number_of_quantity None = NaN"
| "Number_of_quantity (Some q) = binary64 q"

text \<open>The loop over the service lines, threading \<^verbatim>\<open>itemsTotal\<close> and the store.\<close>

fun service_items :: "nat \<Rightarrow> service_line list \<Rightarrow> jsnum \<Rightarrow> db \<Rightarrow> jsnum \<times> db" where
  "service_items invoiceId [] itemsTotal d = (itemsTotal, d)"
| "service_items invoiceId (svc # rest) itemsTotal d =
     (let lineTotal = binary64 (unit_price_or_0 (sl_unit_price svc)) in
        service_items invoiceId rest (fadd itemsTotal lineTotal)
          (insert_invoice_item invoiceId ''service'' (sl_id svc) (sl_description svc) (Some 1)
             None lineTotal lineTotal d))"

text \<open>What a handler's \<^verbatim>\<open>try\<close> block can throw by itself.\<close>

datatype thrown = PartNotFound nat

text \<open>
  The loop over the part lines. The part is looked up by id; a missing part throws, which
  leaves the loop and the \<^verbatim>\<open>try\<close> block.
\<close>

fun part_items :: "nat \<Rightarrow> part_line list \<Rightarrow> jsnum \<Rightarrow> db \<Rightarrow> thrown + jsnum \<times> db" where
  "part_items invoiceId [] itemsTotal d = Inr (itemsTotal, d)"
| "part_items invoiceId (part # rest) itemsTotal d =
     (case find (\<lambda>p. p_id p = pl_id part) (parts d) of
        None \<Rightarrow> Inl (PartNotFound (pl_id part))
      | Some row \<Rightarrow>
          (let lineTotal = fmul (binary64 (p_selling_cost row))
                             (Number_of_quantity (pl_quantity part)) in
             part_items invoiceId rest (fadd itemsTotal lineTotal)
               (insert_invoice_item invoiceId ''part'' (pl_id part) (pl_description part)
                  (pl_quantity part) (Some (p_purchasing_cost row))
                  (Fin (p_selling_cost row)) lineTotal d)))"

definition update_invoice_totals :: "nat \<Rightarrow> jsnum \<Rightarrow> jsnum \<Rightarrow> jsnum \<Rightarrow> db \<Rightarrow> db" where
  "update_invoice_totals invoiceId subtotal tax total' d =
     d\<lparr>invoices :=
          map (\<lambda>i. if i_id i = invoiceId
                    then i\<lparr>i_subtotal := subtotal, i_tax := tax, i_total := total'\<rparr>
                    else i)
            (invoices d)\<rparr>"

text \<open>
  The statements between \<^verbatim>\<open>BEGIN\<close> and \<^verbatim>\<open>COMMIT\<close>: \<open>Inl\<close> is a throw, \<open>Inr\<close> the new
  invoice id and the store to commit. The literals \<^verbatim>\<open>5000\<close> and \<^verbatim>\<open>0.18\<close> are the
  binary64 values \<open>Fin 5000\<close> and \<open>binary64 (18 / 100)\<close>.
\<close>

definition invoice_transaction ::
  "nat \<Rightarrow> number \<Rightarrow> invoice_request \<Rightarrow> db \<Rightarrow> thrown + nat \<times> db" where
  "invoice_transaction vehicle_id days_in_garage req d =
     (let (invoiceId, d1) = insert_invoice vehicle_id days_in_garage d;
          (itemsTotal1, d2) =
            (case ir_services req of
               None \<Rightarrow> (Fin 0, d1)
             | Some svcs \<Rightarrow> service_items invoiceId svcs (Fin 0) d1)
      in case (case ir_parts req of
                 None \<Rightarrow> Inr (itemsTotal1, d2)
               | Some ps \<Rightarrow> part_items invoiceId ps itemsTotal1 d2) of
           Inl e \<Rightarrow> Inl e
         | Inr (itemsTotal, d3) \<Rightarrow>
             (let garageStayTotal = fmul (binary64 days_in_garage) (Fin 5000);
                  subtotal = fadd itemsTotal garageStayTotal;
                  tax = fmul subtotal (binary64 (18 / 100));
                  total' = fadd subtotal tax
              in Inr (invoiceId, update_invoice_totals invoiceId subtotal tax total' d3)))"

definition create_invoice :: "invoice_request \<Rightarrow> db \<Rightarrow> response \<times> db" where
  "create_invoice req d =
     (if falsy_id (ir_vehicle_id req) \<or> falsy_num (ir_days_in_garage req)
      then (Failure 400 ''Vehicle ID and days in garage are required.'', d)
      else case (ir_vehicle_id req, ir_days_in_garage req) of
             (Some vehicle_id, Some days_in_garage) \<Rightarrow>
               (case invoice_transaction vehicle_id days_in_garage req d of
                  Inl e \<Rightarrow> (Failure 500 ''Server error generating invoice'', d)
                | Inr (invoiceId, d') \<Rightarrow> (Success 201 (InvoiceCreated invoiceId), d'))
           | _ \<Rightarrow> (Failure 400 ''Vehicle ID and days in garage are required.'', d))"

subsection \<open>GET /api/invoices/:id/pdf\<close>

text \<open>
  The handler selects the invoice (\<^verbatim>\<open>LIMIT 1\<close>) and its items in id order, computes the
  amounts of the totals block and lays the document out. The layout is not modelled: the
  response carries the computed amounts and the item rows. \<^verbatim>\<open>r.subtotal\<close> arrives as
  text, so \<^verbatim>\<open>r.subtotal || 0\<close> is that text.
\<close>

definition invoice_pdf :: "nat \<Rightarrow> db \<Rightarrow> response" where
  "invoice_pdf id' d =
     (case find (\<lambda>i. i_id i = id') (invoices d) of
        None \<Rightarrow> Failure 404 ''Invoice not found''
      | Some r \<Rightarrow>
          (let items = filter (\<lambda>it. ii_invoice_id it = id') (invoice_items d);
               garageStayTotal = fmul (binary64 (i_days_in_garage r))
                                   (binary64 (i_garage_stay_rate r));
               subtotalRWF = Number_of_text (i_subtotal r);
               taxRWF = Math_round (fmul subtotalRWF (binary64 (18 / 100)));
               totalRWF = fadd subtotalRWF taxRWF
           in Success 200
                (InvoicePdf \<lparr>pdf_garage_stay = garageStayTotal, pdf_subtotal = subtotalRWF,
                              pdf_tax = taxRWF, pdf_total = totalRWF\<rparr> items)))"

subsection \<open>DELETE /api/invoices/:id\<close>

definition delete_invoice :: "nat \<Rightarrow> db \<Rightarrow> response \<times> db" where
  "delete_invoice id' d =
     (let d1 = d\<lparr>invoice_items := filter (\<lambda>it. ii_invoice_id it \<noteq> id') (invoice_items d)\<rparr>;
          result = filter (\<lambda>i. i_id i = id') (invoices d1);
          d2 = d1\<lparr>invoices := filter (\<lambda>i. i_id i \<noteq> id') (invoices d1)\<rparr>
      in if length result = 0 then (Failure 404 ''Invoice not found'', d2)
         else (Success 204 NoContent, d2))"

section \<open>Vehicles\<close>

record standalone_part =
  sp_part_id :: nat
  sp_quantity :: number

record service_part =
  spp_service_id :: nat
  spp_part_id :: nat
  spp_quantity :: number

record vehicle_request =
  vr_plate :: "string option"
  vr_make :: "string option"
  vr_model_name :: "string option"
  vr_year :: "nat option"
  vr_vin :: "string option"
  vr_owner :: "string option"
  vr_contact_number :: "string option"
  vr_service_ids :: "nat list option"
  vr_standalone_parts :: "standalone_part list option"
  vr_service_parts :: "service_part list option"

definition insert_vehicle_service :: "nat \<Rightarrow> nat \<Rightarrow> db \<Rightarrow> db" where
  "insert_vehicle_service vehicle_id service_id d =
     d\<lparr>vehicle_services := vehicle_services d @
          [\<lparr>vs_vehicle_id = vehicle_id, vs_service_id = service_id, vs_status = ''pending'',
            vs_completed_time = None\<rparr>]\<rparr>"

definition insert_vehicle_part :: "nat \<Rightarrow> standalone_part \<Rightarrow> db \<Rightarrow> db" where
  "insert_vehicle_part vehicle_id part d =
     d\<lparr>vehicle_parts := vehicle_parts d @
          [\<lparr>vp_vehicle_id = vehicle_id, vp_part_id = sp_part_id part,
            vp_quantity = sp_quantity part\<rparr>]\<rparr>"

definition insert_vehicle_service_part :: "nat \<Rightarrow> service_part \<Rightarrow> db \<Rightarrow> db" where
  "insert_vehicle_service_part vehicle_id sp d =
     d\<lparr>vehicle_service_parts := vehicle_service_parts d @
          [\<lparr>vsp_vehicle_id = vehicle_id, vsp_service_id = spp_service_id sp,
            vsp_part_id = spp_part_id sp, vsp_quantity = spp_quantity sp\<rparr>]\<rparr>"

text \<open>
  \<^verbatim>\<open>if (Array.isArray(xs)) for (const x of xs) await client.query(INSERT ...)\<close>: one
  insert per element, in order; nothing when the value is not an array.
\<close>

definition for_each :: "('a \<Rightarrow> db \<Rightarrow> db) \<Rightarrow> 'a list option \<Rightarrow> db \<Rightarrow> db" where
  "for_each ins xs d = (case xs of None \<Rightarrow> d | Some ys \<Rightarrow> fold ins ys d)"

text \<open>The elements a \<^const>\<open>for_each\<close> loop visits.\<close>

fun elements :: "'a list option \<Rightarrow> 'a list" where
  "elements None = []"
| "elements (Some xs) = xs"

subsection \<open>POST /api/vehicles\<close>

definition create_vehicle :: "timestamp \<Rightarrow> vehicle_request \<Rightarrow> db \<Rightarrow> response \<times> db" where
  "create_vehicle now req d =
     (if falsy_str (vr_plate req) \<or> falsy_str (vr_owner req) \<or> falsy_str (vr_contact_number req)
      then (Failure 400 ''Plate, owner, and contact number are required'', d)
      else case (vr_plate req, vr_owner req, vr_contact_number req) of
             (Some plate, Some owner, Some contact_number) \<Rightarrow>
               (let vehicle = \<lparr>v_id = vehicles_seq d, v_plate = plate, v_make = vr_make req,
                                v_model_name = vr_model_name req, v_year = vr_year req,
                                v_vin = vr_vin req, v_owner = owner,
                                v_contact_number = contact_number, v_entry_time = now,
                                v_exit_time = None\<rparr>;
                    d1 = d\<lparr>vehicles := vehicles d @ [vehicle],
                           vehicles_seq := Suc (vehicles_seq d)\<rparr>;
                    d2 = for_each (insert_vehicle_service (v_id vehicle)) (vr_service_ids req) d1;
                    d3 = for_each (insert_vehicle_part (v_id vehicle)) (vr_standalone_parts req) d2;
                    d4 = for_each (insert_vehicle_service_part (v_id vehicle))
                           (vr_service_parts req) d3
                in (Success 201 (VehicleRow vehicle), d4))
           | _ \<Rightarrow> (Failure 400 ''Plate, owner, and contact number are required'', d))"

subsection \<open>PUT /api/vehicles/:id\<close>

definition set_vehicle_columns ::
  "string \<Rightarrow> string \<Rightarrow> string \<Rightarrow> vehicle_request \<Rightarrow> vehicle \<Rightarrow> vehicle" where
  "set_vehicle_columns plate owner contact_number req v =
     v\<lparr>v_plate := plate, v_make := vr_make req, v_model_name := vr_model_name req,
       v_year := vr_year req, v_vin := vr_vin req, v_owner := owner,
       v_contact_number := contact_number\<rparr>"

definition update_vehicle :: "nat \<Rightarrow> vehicle_request \<Rightarrow> db \<Rightarrow> response \<times> db" where
  "update_vehicle id' req d =
     (if falsy_str (vr_plate req) \<or> falsy_str (vr_owner req) \<or> falsy_str (vr_contact_number req)
      then (Failure 400 ''Plate, owner, and contact number are required'', d)
      else case (vr_plate req, vr_owner req, vr_contact_number req) of
             (Some plate, Some owner, Some contact_number) \<Rightarrow>
               (let d1 = d\<lparr>vehicles :=
                             map (\<lambda>v. if v_id v = id'
                                       then set_vehicle_columns plate owner contact_number req v
                                       else v)
                               (vehicles d)\<rparr>;
                    vehicleRows = filter (\<lambda>v. v_id v = id') (vehicles d1)
                in case vehicleRows of
                     [] \<Rightarrow> (Failure 404 ''Vehicle not found'', d)
                   | row # _ \<Rightarrow>
                       (let d2 = d1\<lparr>vehicle_parts :=
                                      filter (\<lambda>r. vp_vehicle_id r \<noteq> id') (vehicle_parts d1)\<rparr>;
                            d3 = for_each (insert_vehicle_part id') (vr_standalone_parts req) d2;
                            d4 = d3\<lparr>vehicle_service_parts :=
                                      filter (\<lambda>r. vsp_vehicle_id r \<noteq> id')
                                        (vehicle_service_parts d3)\<rparr>;
                            d5 = for_each (insert_vehicle_service_part id')
                                   (vr_service_parts req) d4
                        in (Success 200 (VehicleRow row), d5)))
           | _ \<Rightarrow> (Failure 400 ''Plate, owner, and contact number are required'', d))"

subsection \<open>PUT /api/vehicles/:id/exit\<close>

definition exit_vehicle :: "timestamp \<Rightarrow> nat \<Rightarrow> db \<Rightarrow> response \<times> db" where
  "exit_vehicle now id' d =
     (if length (filter (\<lambda>r. vs_vehicle_id r = id' \<and> vs_status r \<noteq> ''completed'')
                   (vehicle_services d)) > 0
      then (Failure 400 ''All services must be completed before exiting.'', d)
      else if length (filter (\<lambda>i. i_vehicle_id i = id') (invoices d)) = 0
      then (Failure 400 ''Invoice must be generated before exiting.'', d)
      else (Success 200 (Message ''Vehicle exited successfully.''),
            d\<lparr>vehicles :=
                 map (\<lambda>v. if v_id v = id' then v\<lparr>v_exit_time := Some now\<rparr> else v)
                   (vehicles d)\<rparr>))"

subsection \<open>PUT /api/vehicles/:vehicleId/services/:serviceId\<close>

record status_request =
  sr_status :: string
  sr_completed_time :: "timestamp option"

definition update_service_status ::
  "nat \<Rightarrow> nat \<Rightarrow> status_request \<Rightarrow> db \<Rightarrow> response \<times> db" where
  "update_service_status vehicleId serviceId req d =
     (let rowCount = length (filter (\<lambda>r. vs_vehicle_id r = vehicleId \<and> vs_service_id r = serviceId)
                               (vehicle_services d));
          d1 = d\<lparr>vehicle_services :=
                   map (\<lambda>r. if vs_vehicle_id r = vehicleId \<and> vs_service_id r = serviceId
                             then r\<lparr>vs_status := sr_status req,
                                   vs_completed_time := sr_completed_time req\<rparr>
                             else r)
                     (vehicle_services d)\<rparr>
      in if rowCount = 0 then (Failure 404 ''Service record not found'', d1)
         else (Success 200 (Message ''Service status updated successfully''), d1))"

subsection \<open>DELETE /api/vehicles/:id, as registered first (line 578)\<close>

definition delete_vehicle :: "nat \<Rightarrow> db \<Rightarrow> response \<times> db" where
  "delete_vehicle id' d =
     (let result = filter (\<lambda>v. v_id v = id') (vehicles d);
          d1 = d\<lparr>vehicles := filter (\<lambda>v. v_id v \<noteq> id') (vehicles d)\<rparr>
      in if length result = 0 then (Failure 404 ''Vehicle not found'', d1)
         else (Success 204 NoContent, d1))"

subsection \<open>DELETE /api/vehicles/:id, as registered again (line 986)\<close>

text \<open>
  ``Delete vehicle (cascade invoices + items first)'': the items of the vehicle's invoices,
  then the invoices, then the vehicle, committed before the row count is looked at.
\<close>

definition delete_vehicle_cascade :: "nat \<Rightarrow> db \<Rightarrow> response \<times> db" where
  "delete_vehicle_cascade id' d =
     (let d1 = d\<lparr>invoice_items :=
                   filter (\<lambda>it. ii_invoice_id it \<notin>
                                   set (map i_id (filter (\<lambda>i. i_vehicle_id i = id') (invoices d))))
                     (invoice_items d)\<rparr>;
          d2 = d1\<lparr>invoices := filter (\<lambda>i. i_vehicle_id i \<noteq> id') (invoices d1)\<rparr>;
          result = filter (\<lambda>v. v_id v = id') (vehicles d2);
          d3 = d2\<lparr>vehicles := filter (\<lambda>v. v_id v \<noteq> id') (vehicles d2)\<rparr>
      in if length result = 0 then (Failure 404 ''Vehicle not found'', d3)
         else (Success 204 NoContent, d3))"

section \<open>Parts, workers and services\<close>

record part_request =
  ptr_name :: "string option"
  ptr_part_number :: "string option"
  ptr_purchasing_cost :: "number option"
  ptr_selling_cost :: "number option"
  ptr_quantity_in_stock :: "number option"

text \<open>\<^verbatim>\<open>quantity_in_stock || 0\<close>.\<close>

fun num_or_0 :: "number option \<Rightarrow> number" where
  "num_or_0 None = 0"
| "num_or_0 (Some n) = n"

text \<open>\<^verbatim>\<open>x || null\<close> on an optional string: the empty string becomes NULL as well.\<close>

fun or_null :: "string option \<Rightarrow> string option" where
  "or_null None = None"
| "or_null (Some s) = (if s = [] then None else Some s)"

subsection \<open>POST /api/parts\<close>

definition create_part :: "part_request \<Rightarrow> db \<Rightarrow> response \<times> db" where
  "create_part req d =
     (if falsy_str (ptr_name req) \<or> falsy_str (ptr_part_number req)
         \<or> ptr_purchasing_cost req = None \<or> ptr_selling_cost req = None
      then (Failure 400 ''All fields are required'', d)
      else case (ptr_name req, ptr_part_number req, ptr_purchasing_cost req,
                 ptr_selling_cost req) of
             (Some name, Some part_number, Some purchasing_cost, Some selling_cost) \<Rightarrow>
               (let row = \<lparr>p_id = parts_seq d, p_name = name, p_part_number = part_number,
                            p_purchasing_cost = purchasing_cost, p_selling_cost = selling_cost,
                            p_quantity_in_stock = num_or_0 (ptr_quantity_in_stock req)\<rparr>
                in (Success 201 (PartRow row),
                    d\<lparr>parts := parts d @ [row], parts_seq := Suc (parts_seq d)\<rparr>))
           | _ \<Rightarrow> (Failure 400 ''All fields are required'', d))"

subsection \<open>PUT /api/parts/:id\<close>

definition update_part :: "nat \<Rightarrow> part_request \<Rightarrow> db \<Rightarrow> response \<times> db" where
  "update_part id' req d =
     (if falsy_str (ptr_name req) \<or> falsy_str (ptr_part_number req)
         \<or> ptr_purchasing_cost req = None \<or> ptr_selling_cost req = None
      then (Failure 400 ''All fields are required'', d)
      else case (ptr_name req, ptr_part_number req, ptr_purchasing_cost req,
                 ptr_selling_cost req) of
             (Some name, Some part_number, Some purchasing_cost, Some selling_cost) \<Rightarrow>
               (let d1 = d\<lparr>parts :=
                             map (\<lambda>p. if p_id p = id'
                                       then p\<lparr>p_name := name, p_part_number := part_number,
                                             p_purchasing_cost := purchasing_cost,
                                             p_selling_cost := selling_cost,
                                             p_quantity_in_stock :=
                                               num_or_0 (ptr_quantity_in_stock req)\<rparr>
                                       else p)
                               (parts d)\<rparr>
                in case filter (\<lambda>p. p_id p = id') (parts d1) of
                     [] \<Rightarrow> (Failure 404 ''Part not found'', d1)
                   | row # _ \<Rightarrow> (Success 200 (PartRow row), d1))
           | _ \<Rightarrow> (Failure 400 ''All fields are required'', d))"

subsection \<open>DELETE /api/parts/:id\<close>

definition delete_part :: "nat \<Rightarrow> db \<Rightarrow> response \<times> db" where
  "delete_part id' d =
     (let result = filter (\<lambda>p. p_id p = id') (parts d);
          d1 = d\<lparr>parts := filter (\<lambda>p. p_id p \<noteq> id') (parts d)\<rparr>
      in if length result = 0 then (Failure 404 ''Part not found'', d1)
         else (Success 204 NoContent, d1))"

subsection \<open>POST /api/workers\<close>

record worker_request =
  wr_name :: "string option"
  wr_job_title :: "string option"
  wr_phone :: "string option"
  wr_email :: "string option"

definition create_worker :: "worker_request \<Rightarrow> db \<Rightarrow> response \<times> db" where
  "create_worker req d =
     (case wr_name req of
        None \<Rightarrow> (Failure 400 ''Name is required'', d)
      | Some name \<Rightarrow>
          if name = [] then (Failure 400 ''Name is required'', d)
          else (let row = \<lparr>w_id = workers_seq d, w_name = name,
                             w_job_title = or_null (wr_job_title req),
                             w_phone = or_null (wr_phone req), w_email = or_null (wr_email req)\<rparr>
                in (Success 201 (WorkerRow row),
                    d\<lparr>workers := workers d @ [row], workers_seq := Suc (workers_seq d)\<rparr>)))"

subsection \<open>DELETE /api/workers/:id\<close>

text \<open>
  ``Safer delete: unassign from services, remove payments, then delete worker''. The
  transaction is committed before the row count of the last statement is looked at.
\<close>

definition delete_worker :: "nat \<Rightarrow> db \<Rightarrow> response \<times> db" where
  "delete_worker id' d =
     (let d1 = d\<lparr>services :=
                   map (\<lambda>s. if s_worker_id s = Some id' then s\<lparr>s_worker_id := None\<rparr> else s)
                     (services d)\<rparr>;
          d2 = d1\<lparr>worker_payments :=
                    filter (\<lambda>p. wp_worker_id p \<noteq> id') (worker_payments d1)\<rparr>;
          result = filter (\<lambda>w. w_id w = id') (workers d2);
          d3 = d2\<lparr>workers := filter (\<lambda>w. w_id w \<noteq> id') (workers d2)\<rparr>
      in if length result = 0 then (Failure 404 ''Worker not found'', d3)
         else (Success 204 NoContent, d3))"

subsection \<open>PUT /api/services/:id/assign-worker\<close>

definition assign_worker :: "nat \<Rightarrow> nat option \<Rightarrow> db \<Rightarrow> response \<times> db" where
  "assign_worker id' worker_id d =
     (if falsy_id worker_id then (Failure 400 ''worker_id is required'', d)
      else (let d1 = d\<lparr>services :=
                         map (\<lambda>s. if s_id s = id' then s\<lparr>s_worker_id := worker_id\<rparr> else s)
                           (services d)\<rparr>
            in case filter (\<lambda>s. s_id s = id') (services d1) of
                 [] \<Rightarrow> (Failure 404 ''Service not found'', d1)
               | row # _ \<Rightarrow> (Success 200 (ServiceRow row), d1)))"

section \<open>Worker payments\<close>

subsection \<open>JSON scalars and the conversions of the platform\<close>

datatype jsval = JUndefined | JNull | JBool bool | JNum number | JStr string

fun truthy :: "jsval \<Rightarrow> bool" where
  "truthy JUndefined = False"
| "truthy JNull = False"
| "truthy (JBool b) = b"
| "truthy (JNum n) = (n \<noteq> 0)"
| "truthy (JStr s) = (s \<noteq> [])"

text \<open>
  What the source takes from the JavaScript platform and does not define: the reading of
  a string as a number (\<open>None\<close> is NaN) and the time value of \<^verbatim>\<open>new Date(v)\<close>
  (\<open>None\<close> is an invalid date, whose \<^verbatim>\<open>getTime()\<close> is NaN). Both are parameters of
  the model.
\<close>

record platform =
  StringToNumber :: "string \<Rightarrow> number option"
  DateValue :: "jsval \<Rightarrow> timestamp option"

text \<open>\<^verbatim>\<open>Number(v)\<close>; \<open>None\<close> is NaN.\<close>

fun Number :: "platform \<Rightarrow> jsval \<Rightarrow> number option" where
  "Number P JUndefined = None"
| "Number P JNull = Some 0"
| "Number P (JBool b) = Some (if b then 1 else 0)"
| "Number P (JNum n) = Some n"
| "Number P (JStr s) = StringToNumber P s"

subsection \<open>POST /api/workers/:id/payments\<close>

record payment_request =
  pr_amount :: jsval
  pr_method :: "string option"
  pr_notes :: "string option"
  pr_payment_date :: jsval

text \<open>
  \<open>when\<close> stays \<^verbatim>\<open>null\<close> unless \<^verbatim>\<open>payment_date\<close> is truthy and parses; the store
  then evaluates \<^verbatim>\<open>COALESCE($5, NOW())\<close>.
\<close>

definition payment_when :: "platform \<Rightarrow> jsval \<Rightarrow> timestamp option" where
  "payment_when P payment_date =
     (if truthy payment_date then DateValue P payment_date else None)"

fun coalesce :: "timestamp option \<Rightarrow> timestamp \<Rightarrow> timestamp" where
  "coalesce None now = now"
| "coalesce (Some t) now = t"

definition add_payment ::
  "platform \<Rightarrow> timestamp \<Rightarrow> nat \<Rightarrow> payment_request \<Rightarrow> db \<Rightarrow> response \<times> db" where
  "add_payment P now id' req d =
     (if \<not> truthy (pr_amount req) \<or> Number P (pr_amount req) = None
      then (Failure 400 ''Invalid amount'', d)
      else case Number P (pr_amount req) of
             None \<Rightarrow> (Failure 400 ''Invalid amount'', d)
           | Some amount \<Rightarrow>
               (let when = payment_when P (pr_payment_date req);
                    row = \<lparr>wp_id = worker_payments_seq d, wp_worker_id = id',
                            wp_amount = amount, wp_method = or_null (pr_method req),
                            wp_notes = or_null (pr_notes req),
                            wp_payment_date = coalesce when now\<rparr>
                in (Success 201 (PaymentRow row),
                    d\<lparr>worker_payments := worker_payments d @ [row],
                      worker_payments_seq := Suc (worker_payments_seq d)\<rparr>)))"

section \<open>Routing\<close>

text \<open>
  Express keeps the routes in the order of their registration and passes a request to the
  first one whose method and path pattern match. None of the handlers takes or calls
  \<^verbatim>\<open>next\<close>, so a later route that matches the same request is never reached.

  A path is a list of segments; a segment is a word or a number (a row id in decimal).
  A literal of a pattern matches the same word only; a parameter (\<^verbatim>\<open>:id\<close>) matches any
  segment.
\<close>

datatype verb = GET | POST | PUT | DELETE

datatype segment = Word string | Ident nat

datatype pattern = Lit string | Param string

fun matches :: "pattern \<Rightarrow> segment \<Rightarrow> bool" where
  "matches (Lit l) (Word w) = (l = w)"
| "matches (Lit l) (Ident n) = False"
| "matches (Param x) (Word w) = (w \<noteq> [])"
| "matches (Param x) (Ident n) = True"

text \<open>One name per \<^verbatim>\<open>app.get\<close>, \<^verbatim>\<open>app.post\<close>, \<^verbatim>\<open>app.put\<close>, \<^verbatim>\<open>app.delete\<close> of the source.\<close>

datatype handler =
    Healthz
  | ListParts | PostParts | PutPart | DeletePart
  | ListWorkers | PostWorkers | DeleteWorker
  | ListServices | AssignWorker
  | ListVehicles | GetVehicle | PostVehicles | PutVehicle | ExitVehicle | PutVehicleService
  | DeleteVehicle
  | PostInvoices | ListInvoices | GetInvoice | GetInvoicePdf
  | ListPayments | PostPayment | PaymentsTotal | PaymentsPdf
  | PostArchiveFiles | ListArchiveFiles
  | DeleteVehicleCascade
  | DeleteInvoice
  | ListVehicleIds

definition routes :: "(verb \<times> pattern list \<times> handler) list" where
  "routes =
    [(GET, [Lit ''healthz''], Healthz),
     (GET, [Lit ''api'', Lit ''parts''], ListParts),
     (POST, [Lit ''api'', Lit ''parts''], PostParts),
     (PUT, [Lit ''api'', Lit ''parts'', Param ''id''], PutPart),
     (DELETE, [Lit ''api'', Lit ''parts'', Param ''id''], DeletePart),
     (GET, [Lit ''api'', Lit ''workers''], ListWorkers),
     (POST, [Lit ''api'', Lit ''workers''], PostWorkers),
     (DELETE, [Lit ''api'', Lit ''workers'', Param ''id''], DeleteWorker),
     (GET, [Lit ''api'', Lit ''services''], ListServices),
     (PUT, [Lit ''api'', Lit ''services'', Param ''id'', Lit ''assign-worker''], AssignWorker),
     (GET, [Lit ''api'', Lit ''vehicles''], ListVehicles),
     (GET, [Lit ''api'', Lit ''vehicles'', Param ''id''], GetVehicle),
     (POST, [Lit ''api'', Lit ''vehicles''], PostVehicles),
     (PUT, [Lit ''api'', Lit ''vehicles'', Param ''id''], PutVehicle),
     (PUT, [Lit ''api'', Lit ''vehicles'', Param ''id'', Lit ''exit''], ExitVehicle),
     (PUT, [Lit ''api'', Lit ''vehicles'', Param ''vehicleId'', Lit ''services'',
            Param ''serviceId''], PutVehicleService),
     (DELETE, [Lit ''api'', Lit ''vehicles'', Param ''id''], DeleteVehicle),
     (POST, [Lit ''api'', Lit ''invoices''], PostInvoices),
     (GET, [Lit ''api'', Lit ''invoices''], ListInvoices),
     (GET, [Lit ''api'', Lit ''invoices'', Param ''id''], GetInvoice),
     (GET, [Lit ''api'', Lit ''invoices'', Param ''id'', Lit ''pdf''], GetInvoicePdf),
     (GET, [Lit ''api'', Lit ''workers'', Param ''id'', Lit ''payments''], ListPayments),
     (POST, [Lit ''api'', Lit ''workers'', Param ''id'', Lit ''payments''], PostPayment),
     (GET, [Lit ''api'', Lit ''workers'', Param ''id'', Lit ''payments'', Lit ''total''],
        PaymentsTotal),
     (GET, [Lit ''api'', Lit ''workers'', Param ''id'', Lit ''payments'', Lit ''pdf''],
        PaymentsPdf),
     (POST, [Lit ''api'', Lit ''archive'', Lit ''files''], PostArchiveFiles),
     (GET, [Lit ''api'', Lit ''archive'', Lit ''files'', Param ''year''], ListArchiveFiles),
     (DELETE, [Lit ''api'', Lit ''vehicles'', Param ''id''], DeleteVehicleCascade),
     (DELETE, [Lit ''api'', Lit ''invoices'', Param ''id''], DeleteInvoice),
     (GET, [Lit ''api'', Lit ''vehicle-ids''], ListVehicleIds)]"

fun first_match ::
  "(verb \<times> pattern list \<times> handler) list \<Rightarrow> verb \<Rightarrow> segment list \<Rightarrow> handler option" where
  "first_match [] m path = None"
| "first_match ((m', pats, h) # rest) m path =
     (if m' = m \<and> list_all2 matches pats path then Some h else first_match rest m path)"

definition dispatch :: "verb \<Rightarrow> segment list \<Rightarrow> handler option" where
  "dispatch m path = first_match routes m path"

subsection \<open>The requests that change the store, and the invoice PDF\<close>

datatype call =
    CreatePart part_request
  | UpdatePart nat part_request
  | RemovePart nat
  | CreateWorker worker_request
  | RemoveWorker nat
  | AssignServiceWorker nat "nat option"
  | CreateVehicle vehicle_request
  | UpdateVehicle nat vehicle_request
  | MarkExit nat
  | SetServiceStatus nat nat status_request
  | RemoveVehicle nat
  | CreateInvoice invoice_request
  | RenderInvoicePdf nat
  | RemoveInvoice nat
  | AddPayment nat payment_request

text \<open>The method and the path a request arrives with.\<close>

fun target :: "call \<Rightarrow> verb \<times> segment list" where
  "target (CreatePart b) = (POST, [Word ''api'', Word ''parts''])"
| "target (UpdatePart i b) = (PUT, [Word ''api'', Word ''parts'', Ident i])"
| "target (RemovePart i) = (DELETE, [Word ''api'', Word ''parts'', Ident i])"
| "target (CreateWorker b) = (POST, [Word ''api'', Word ''workers''])"
| "target (RemoveWorker i) = (DELETE, [Word ''api'', Word ''workers'', Ident i])"
| "target (AssignServiceWorker i w) =
     (PUT, [Word ''api'', Word ''services'', Ident i, Word ''assign-worker''])"
| "target (CreateVehicle b) = (POST, [Word ''api'', Word ''vehicles''])"
| "target (UpdateVehicle i b) = (PUT, [Word ''api'', Word ''vehicles'', Ident i])"
| "target (MarkExit i) = (PUT, [Word ''api'', Word ''vehicles'', Ident i, Word ''exit''])"
| "target (SetServiceStatus v sv b) =
     (PUT, [Word ''api'', Word ''vehicles'', Ident v, Word ''services'', Ident sv])"
| "target (RemoveVehicle i) = (DELETE, [Word ''api'', Word ''vehicles'', Ident i])"
| "target (CreateInvoice b) = (POST, [Word ''api'', Word ''invoices''])"
| "target (RenderInvoicePdf i) = (GET, [Word ''api'', Word ''invoices'', Ident i, Word ''pdf''])"
| "target (RemoveInvoice i) = (DELETE, [Word ''api'', Word ''invoices'', Ident i])"
| "target (AddPayment i b) = (POST, [Word ''api'', Word ''workers'', Ident i, Word ''payments''])"

text \<open>
  The handler \<open>h\<close> run on the parameters and the body of the request. The read-only
  handlers other than the invoice PDF are not modelled; a handler that does not take the
  request's shape answers as Express does when nothing matched.
\<close>

definition no_route :: "db \<Rightarrow> response \<times> db" where
  "no_route d = (Failure 404 ''Cannot route'', d)"

fun perform :: "platform \<Rightarrow> timestamp \<Rightarrow> handler \<Rightarrow> call \<Rightarrow> db \<Rightarrow> response \<times> db" where
  "perform P now h (CreatePart b) d = (if h = PostParts then create_part b d else no_route d)"
| "perform P now h (UpdatePart i b) d = (if h = PutPart then update_part i b d else no_route d)"
| "perform P now h (RemovePart i) d = (if h = DeletePart then delete_part i d else no_route d)"
| "perform P now h (CreateWorker b) d =
     (if h = PostWorkers then create_worker b d else no_route d)"
| "perform P now h (RemoveWorker i) d =
     (if h = DeleteWorker then delete_worker i d else no_route d)"
| "perform P now h (AssignServiceWorker i w) d =
     (if h = AssignWorker then assign_worker i w d else no_route d)"
| "perform P now h (CreateVehicle b) d =
     (if h = PostVehicles then create_vehicle now b d else no_route d)"
| "perform P now h (UpdateVehicle i b) d =
     (if h = PutVehicle then update_vehicle i b d else no_route d)"
| "perform P now h (MarkExit i) d = (if h = ExitVehicle then exit_vehicle now i d else no_route d)"
| "perform P now h (SetServiceStatus v sv b) d =
     (if h = PutVehicleService then update_service_status v sv b d else no_route d)"
| "perform P now h (RemoveVehicle i) d =
     (if h = DeleteVehicle then delete_vehicle i d
      else if h = DeleteVehicleCascade then delete_vehicle_cascade i d
      else no_route d)"
| "perform P now h (CreateInvoice b) d =
     (if h = PostInvoices then create_invoice b d else no_route d)"
| "perform P now h (RenderInvoicePdf i) d =
     (if h = GetInvoicePdf then (invoice_pdf i d, d) else no_route d)"
| "perform P now h (RemoveInvoice i) d =
     (if h = DeleteInvoice then delete_invoice i d else no_route d)"
| "perform P now h (AddPayment i b) d =
     (if h = PostPayment then add_payment P now i b d else no_route d)"

definition server :: "platform \<Rightarrow> timestamp \<Rightarrow> call \<Rightarrow> db \<Rightarrow> response \<times> db" where
  "server P now c d =
     (case dispatch (fst (target c)) (snd (target c)) of
        None \<Rightarrow> no_route d
      | Some h \<Rightarrow> perform P now h c d)"

section \<open>Well-formed stores\<close>

text \<open>
  Keys come from the table's counter, so every key in use is below it, and an invoice
  item refers to an invoice key that has been issued.
\<close>

definition invoice_keys_ok :: "db \<Rightarrow> bool" where
  "invoice_keys_ok d \<longleftrightarrow>
     list_all (\<lambda>i. i_id i < invoices_seq d) (invoices d) \<and>
     list_all (\<lambda>it. ii_invoice_id it < invoices_seq d) (invoice_items d)"

definition vehicle_keys_ok :: "db \<Rightarrow> bool" where
  "vehicle_keys_ok d \<longleftrightarrow>
     distinct (map v_id (vehicles d)) \<and>
     list_all (\<lambda>v. v_id v < vehicles_seq d) (vehicles d)"

text \<open>The store before the first request: no rows, every counter at 1.\<close>

definition initial_db :: db where
  "initial_db =
     \<lparr>parts = [], workers = [], services = [], vehicles = [], vehicle_services = [],
      vehicle_parts = [], vehicle_service_parts = [], invoices = [], invoice_items = [],
      worker_payments = [], parts_seq = 1, workers_seq = 1, vehicles_seq = 1,
      invoices_seq = 1, invoice_items_seq = 1, worker_payments_seq = 1\<rparr>"

text \<open>The stores the server can reach from a given one, one request at a time.\<close>

inductive reachable :: "db \<Rightarrow> db \<Rightarrow> bool" for d0 :: db where
  start: "reachable d0 d0"
| request: "reachable d0 d \<Longrightarrow> reachable d0 (snd (server P now c d))"

section \<open>A worked store\<close>

text \<open>
  The store of the examples: part 5 sells at 1000; vehicle 1 has its one service completed
  and one invoice (the invoice of the specification's example: 3000 for the service, two
  parts at 1000, two days at 5000); worker 7 is assigned to service 2 and has three
  payments.
\<close>

definition sample_db :: db where
  "sample_db =
     \<lparr>parts = [\<lparr>p_id = 5, p_name = ''Oil filter'', p_part_number = ''OF-5'',
                 p_purchasing_cost = 700, p_selling_cost = 1000, p_quantity_in_stock = 10\<rparr>],
      workers = [\<lparr>w_id = 7, w_name = ''Eric'', w_job_title = Some ''Mechanic'',
                   w_phone = None, w_email = None\<rparr>],
      services = [\<lparr>s_id = 1, s_name = ''Oil change'', s_category = ''Engine'',
                    s_worker_id = None\<rparr>,
                  \<lparr>s_id = 2, s_name = ''Brake check'', s_category = ''Brakes'',
                    s_worker_id = Some 7\<rparr>],
      vehicles = [\<lparr>v_id = 1, v_plate = ''RAB123A'', v_make = Some ''Toyota'',
                    v_model_name = Some ''Corolla'', v_year = Some 2015, v_vin = None,
                    v_owner = ''Alice'', v_contact_number = ''0780000000'',
                    v_entry_time = 100, v_exit_time = None\<rparr>],
      vehicle_services = [\<lparr>vs_vehicle_id = 1, vs_service_id = 1, vs_status = ''completed'',
                            vs_completed_time = Some 200\<rparr>],
      vehicle_parts = [\<lparr>vp_vehicle_id = 1, vp_part_id = 5, vp_quantity = 2\<rparr>],
      vehicle_service_parts = [],
      invoices = [\<lparr>i_id = 1, i_vehicle_id = 1, i_days_in_garage = 2,
                    i_garage_stay_rate = 5000, i_subtotal = Fin 15000, i_tax = Fin 2700,
                    i_total = Fin 17700\<rparr>],
      invoice_items = [\<lparr>ii_id = 1, ii_invoice_id = 1, ii_item_type = ''service'',
                         ii_item_id = 1, ii_description = Some ''Oil change'',
                         ii_quantity = Some 1, ii_purchased_cost = None,
                         ii_unit_price = Fin 3000, ii_total = Fin 3000\<rparr>,
                       \<lparr>ii_id = 2, ii_invoice_id = 1, ii_item_type = ''part'',
                         ii_item_id = 5, ii_description = None, ii_quantity = Some 2,
                         ii_purchased_cost = Some 700, ii_unit_price = Fin 1000,
                         ii_total = Fin 2000\<rparr>],
      worker_payments = [\<lparr>wp_id = 1, wp_worker_id = 7, wp_amount = 20000,
                           wp_method = Some ''cash'', wp_notes = None, wp_payment_date = 300\<rparr>,
                         \<lparr>wp_id = 2, wp_worker_id = 7, wp_amount = 15000,
                           wp_method = Some ''momo'', wp_notes = None, wp_payment_date = 400\<rparr>,
                         \<lparr>wp_id = 3, wp_worker_id = 7, wp_amount = 5000,
                           wp_method = None, wp_notes = Some ''advance'',
                           wp_payment_date = 500\<rparr>],
      parts_seq = 6, workers_seq = 8, vehicles_seq = 2, invoices_seq = 2,
      invoice_items_seq = 3, worker_payments_seq = 4\<rparr>"

text \<open>
  A platform for the examples, which send numbers only: no string reads as a number, and
  a number is the time value of its date.
\<close>

definition demo_platform :: platform where
  "demo_platform =
     \<lparr>StringToNumber = (\<lambda>s. None),
      DateValue = (\<lambda>v. case v of JNum n \<Rightarrow> Some (floor n) | _ \<Rightarrow> None)\<rparr>"

section \<open>Routing lemmas\<close>

lemma server_routes:
  "server P now (CreatePart pb) d = create_part pb d"
  "server P now (UpdatePart i pb) d = update_part i pb d"
  "server P now (RemovePart i) d = delete_part i d"
  "server P now (CreateWorker wb) d = create_worker wb d"
  "server P now (RemoveWorker i) d = delete_worker i d"
  "server P now (AssignServiceWorker i w) d = assign_worker i w d"
  "server P now (CreateVehicle vb) d = create_vehicle now vb d"
  "server P now (UpdateVehicle i vb) d = update_vehicle i vb d"
  "server P now (MarkExit i) d = exit_vehicle now i d"
  "server P now (SetServiceStatus v sv sb) d = update_service_status v sv sb d"
  "server P now (CreateInvoice ib) d = create_invoice ib d"
  "server P now (RenderInvoicePdf i) d = (invoice_pdf i d, d)"
  "server P now (RemoveInvoice i) d = delete_invoice i d"
  "server P now (AddPayment i yb) d = add_payment P now i yb d"
  by (simp_all add: server_def dispatch_def routes_def)

text \<open>
  A \<^verbatim>\<open>DELETE /api/vehicles/:id\<close> request is answered by the handler of line 578; the
  cascading handler of line 986 has the same method and pattern and comes later in
  \<^const>\<open>routes\<close>.
\<close>

lemma server_remove_vehicle: "server P now (RemoveVehicle i) d = delete_vehicle i d"
  by (simp add: server_def dispatch_def routes_def)

lemma dispatch_delete_vehicle:
  "dispatch DELETE [Word ''api'', Word ''vehicles'', Ident i] = Some DeleteVehicle"
  by (simp add: dispatch_def routes_def)

lemma cascade_never_dispatched: "dispatch m path \<noteq> Some DeleteVehicleCascade"
  by (simp add: dispatch_def routes_def)


section \<open>Creating an invoice\<close>

lemma insert_invoice_item_parts [simp]:
  "parts (insert_invoice_item a b c e f g h i d) = parts d"
  by (simp add: insert_invoice_item_def)

lemma service_items_effect:
  "service_items iid svcs t d = (t', d') \<Longrightarrow>
     \<exists>new. d' = d\<lparr>invoice_items := invoice_items d @ new,
                    invoice_items_seq := invoice_items_seq d + length new\<rparr>
         \<and> list_all (\<lambda>it. ii_invoice_id it = iid) new
         \<and> t' = foldl fadd t (map ii_total new)"
proof (induction svcs arbitrary: t d)
  case Nil
  then show ?case by (intro exI [of _ "[]"]) simp
next
  case (Cons svc rest)
  let ?line = "binary64 (unit_price_or_0 (sl_unit_price svc))"
  let ?x = "\<lparr>ii_id = invoice_items_seq d, ii_invoice_id = iid, ii_item_type = ''service'',
            ii_item_id = sl_id svc, ii_description = sl_description svc, ii_quantity = Some 1,
            ii_purchased_cost = None, ii_unit_price = ?line, ii_total = ?line\<rparr>"
  let ?d1 = "insert_invoice_item iid ''service'' (sl_id svc) (sl_description svc) (Some 1) None
               ?line ?line d"
  from Cons.prems have "service_items iid rest (fadd t ?line) ?d1 = (t', d')"
    by (simp add: Let_def)
  from Cons.IH [OF this] obtain new where
    "d' = ?d1\<lparr>invoice_items := invoice_items ?d1 @ new,
               invoice_items_seq := invoice_items_seq ?d1 + length new\<rparr>"
    "list_all (\<lambda>it. ii_invoice_id it = iid) new"
    "t' = foldl fadd (fadd t ?line) (map ii_total new)"
    by blast
  then show ?case
    by (intro exI [of _ "?x # new"]) (simp add: insert_invoice_item_def)
qed

lemma part_items_effect:
  "part_items iid ps t d = Inr (t', d') \<Longrightarrow>
     \<exists>new. d' = d\<lparr>invoice_items := invoice_items d @ new,
                    invoice_items_seq := invoice_items_seq d + length new\<rparr>
         \<and> list_all (\<lambda>it. ii_invoice_id it = iid) new
         \<and> t' = foldl fadd t (map ii_total new)"
proof (induction ps arbitrary: t d)
  case Nil
  then show ?case by (intro exI [of _ "[]"]) simp
next
  case (Cons pl rest)
  from Cons.prems obtain row where row: "find (\<lambda>p. p_id p = pl_id pl) (parts d) = Some row"
    by (auto split: option.splits)
  let ?line = "fmul (binary64 (p_selling_cost row)) (Number_of_quantity (pl_quantity pl))"
  let ?x = "\<lparr>ii_id = invoice_items_seq d, ii_invoice_id = iid, ii_item_type = ''part'',
            ii_item_id = pl_id pl, ii_description = pl_description pl,
            ii_quantity = pl_quantity pl, ii_purchased_cost = Some (p_purchasing_cost row),
            ii_unit_price = Fin (p_selling_cost row), ii_total = ?line\<rparr>"
  let ?d1 = "insert_invoice_item iid ''part'' (pl_id pl) (pl_description pl)
               (pl_quantity pl) (Some (p_purchasing_cost row)) (Fin (p_selling_cost row))
               ?line d"
  from Cons.prems row have "part_items iid rest (fadd t ?line) ?d1 = Inr (t', d')"
    by (simp add: Let_def)
  from Cons.IH [OF this] obtain new where
    "d' = ?d1\<lparr>invoice_items := invoice_items ?d1 @ new,
               invoice_items_seq := invoice_items_seq ?d1 + length new\<rparr>"
    "list_all (\<lambda>it. ii_invoice_id it = iid) new"
    "t' = foldl fadd (fadd t ?line) (map ii_total new)"
    by blast
  then show ?case
    by (intro exI [of _ "?x # new"]) (simp add: insert_invoice_item_def)
qed

lemma part_items_missing:
  "\<exists>pl\<in>set ps. \<forall>p\<in>set (parts d). p_id p \<noteq> pl_id pl \<Longrightarrow> \<exists>e. part_items iid ps t d = Inl e"
proof (induction ps arbitrary: t d)
  case Nil
  then show ?case by simp
next
  case (Cons pl rest)
  show ?case
  proof (cases "find (\<lambda>p. p_id p = pl_id pl) (parts d)")
    case None
    then show ?thesis by simp
  next
    case (Some row)
    then have "\<exists>p\<in>set (parts d). p_id p = pl_id pl"
      by (auto simp: find_Some_iff)
    with Cons.prems have "\<exists>q\<in>set rest. \<forall>p\<in>set (parts d). p_id p \<noteq> pl_id q"
      by auto
    then show ?thesis using Some Cons.IH by (simp add: Let_def)
  qed
qed

lemma create_invoice_rejects_missing_part:
  assumes "ir_parts req = Some ps"
    and "\<exists>pl\<in>set ps. \<forall>p\<in>set (parts d). p_id p \<noteq> pl_id pl"
  shows "create_invoice req d = (Failure 400 ''Vehicle ID and days in garage are required.'', d)
       \<or> create_invoice req d = (Failure 500 ''Server error generating invoice'', d)"
proof (cases "falsy_id (ir_vehicle_id req) \<or> falsy_num (ir_days_in_garage req)")
  case True
  then show ?thesis by (simp add: create_invoice_def)
next
  case False
  then obtain vid days where vd: "ir_vehicle_id req = Some vid" "ir_days_in_garage req = Some days"
    by (cases "ir_vehicle_id req"; cases "ir_days_in_garage req") auto
  obtain iid d1 where d1: "insert_invoice vid days d = (iid, d1)"
    by (cases "insert_invoice vid days d")
  then have p1: "parts d1 = parts d"
    by (auto simp: insert_invoice_def)
  obtain t1 d2 where d2: "(case ir_services req of None \<Rightarrow> (Fin 0, d1)
             | Some svcs \<Rightarrow> service_items iid svcs (Fin 0) d1) = (t1, d2)"
    by (cases "(case ir_services req of None \<Rightarrow> (Fin 0, d1)
             | Some svcs \<Rightarrow> service_items iid svcs (Fin 0) d1)")
  have p2: "parts d2 = parts d1"
  proof (cases "ir_services req")
    case None
    with d2 show ?thesis by simp
  next
    case (Some svcs)
    with d2 have "service_items iid svcs (Fin 0) d1 = (t1, d2)" by simp
    from service_items_effect [OF this] show ?thesis by auto
  qed
  from assms(2) p1 p2 have "\<exists>pl\<in>set ps. \<forall>p\<in>set (parts d2). p_id p \<noteq> pl_id pl"
    by simp
  from part_items_missing [OF this] obtain e where "part_items iid ps t1 d2 = Inl e"
    by blast
  with d1 d2 assms(1) have "invoice_transaction vid days req d = Inl e"
    by (simp add: invoice_transaction_def)
  with False vd show ?thesis
    by (simp add: create_invoice_def)
qed

text \<open>
  What the handler leaves in the invoice row: the item totals added up in the order of
  their insertion, the garage stay added to that, the tax as the product with 0.18 and
  the total as their sum, each operation rounded to binary64 and none of them rounded to
  a whole amount.
\<close>

lemma create_invoice_row:
  assumes ok: "invoice_keys_ok d"
    and res: "create_invoice req d = (Success 201 (InvoiceCreated iid), d')"
  shows "\<exists>inv days.
           filter (\<lambda>i. i_id i = iid) (invoices d') = [inv] \<and>
           ir_days_in_garage req = Some days \<and>
           i_days_in_garage inv = days \<and>
           i_garage_stay_rate inv = 5000 \<and>
           i_subtotal inv =
             fadd (foldl fadd (Fin 0)
                     (map ii_total (filter (\<lambda>it. ii_invoice_id it = iid) (invoice_items d'))))
               (fmul (binary64 days) (Fin 5000)) \<and>
           i_tax inv = fmul (i_subtotal inv) (binary64 (18 / 100)) \<and>
           i_total inv = fadd (i_subtotal inv) (i_tax inv)"
proof -
  from res have nf: "\<not> (falsy_id (ir_vehicle_id req) \<or> falsy_num (ir_days_in_garage req))"
    by (auto simp: create_invoice_def split: if_splits)
  then obtain vid days where vd: "ir_vehicle_id req = Some vid" "ir_days_in_garage req = Some days"
    by (cases "ir_vehicle_id req"; cases "ir_days_in_garage req") auto
  from res nf vd have tx: "invoice_transaction vid days req d = Inr (iid, d')"
    by (auto simp: create_invoice_def split: sum.splits)
  define row where "row = \<lparr>i_id = invoices_seq d, i_vehicle_id = vid,
             i_days_in_garage = days, i_garage_stay_rate = 5000,
             i_subtotal = Fin 0, i_tax = Fin 0, i_total = Fin 0\<rparr>"
  define d1 where "d1 = d\<lparr>invoices := invoices d @ [row], invoices_seq := Suc (invoices_seq d)\<rparr>"
  have ins: "insert_invoice vid days d = (invoices_seq d, d1)"
    by (simp add: insert_invoice_def d1_def row_def)
  let ?sv = "case ir_services req of None \<Rightarrow> (Fin 0, d1)
             | Some svcs \<Rightarrow> service_items (invoices_seq d) svcs (Fin 0) d1"
  obtain t1 d2 where d2: "?sv = (t1, d2)"
    by (cases ?sv)
  have "\<exists>new1. d2 = d1\<lparr>invoice_items := invoice_items d1 @ new1,
                    invoice_items_seq := invoice_items_seq d1 + length new1\<rparr>
         \<and> list_all (\<lambda>it. ii_invoice_id it = invoices_seq d) new1
         \<and> t1 = foldl fadd (Fin 0) (map ii_total new1)"
  proof (cases "ir_services req")
    case None
    with d2 show ?thesis by (intro exI [of _ "[]"]) auto
  next
    case (Some svcs)
    with d2 have "service_items (invoices_seq d) svcs (Fin 0) d1 = (t1, d2)" by simp
    from service_items_effect [OF this] show ?thesis .
  qed
  then obtain new1 where new1:
    "d2 = d1\<lparr>invoice_items := invoice_items d1 @ new1,
                    invoice_items_seq := invoice_items_seq d1 + length new1\<rparr>"
    "list_all (\<lambda>it. ii_invoice_id it = invoices_seq d) new1"
    "t1 = foldl fadd (Fin 0) (map ii_total new1)"
    by auto
  let ?ps = "case ir_parts req of None \<Rightarrow> Inr (t1, d2)
               | Some ps \<Rightarrow> part_items (invoices_seq d) ps t1 d2"
  have tx': "(case ?ps of Inl e \<Rightarrow> Inl e
      | Inr (itemsTotal, d3) \<Rightarrow>
          Inr (invoices_seq d,
               update_invoice_totals (invoices_seq d)
                 (fadd itemsTotal (fmul (binary64 days) (Fin 5000)))
                 (fmul (fadd itemsTotal (fmul (binary64 days) (Fin 5000))) (binary64 (18 / 100)))
                 (fadd (fadd itemsTotal (fmul (binary64 days) (Fin 5000)))
                    (fmul (fadd itemsTotal (fmul (binary64 days) (Fin 5000)))
                       (binary64 (18 / 100)))) d3))
     = Inr (iid, d')"
    using tx unfolding invoice_transaction_def Let_def ins prod.case d2 .
  obtain t3 d3 where d3: "?ps = Inr (t3, d3)"
    using tx' by (cases ?ps) auto
  define subtotal where "subtotal = fadd t3 (fmul (binary64 days) (Fin 5000))"
  define tax where "tax = fmul subtotal (binary64 (18 / 100))"
  define tot where "tot = fadd subtotal tax"
  note vals = subtotal_def tax_def tot_def
  from tx' have "Inr (invoices_seq d, update_invoice_totals (invoices_seq d) subtotal tax tot d3)
      = (Inr (iid, d') :: thrown + nat \<times> db)"
    unfolding d3 sum.case prod.case vals .
  then have iid: "iid = invoices_seq d"
    and d': "d' = update_invoice_totals (invoices_seq d) subtotal tax tot d3"
    by auto
  have "\<exists>new2. d3 = d2\<lparr>invoice_items := invoice_items d2 @ new2,
                    invoice_items_seq := invoice_items_seq d2 + length new2\<rparr>
         \<and> list_all (\<lambda>it. ii_invoice_id it = invoices_seq d) new2
         \<and> t3 = foldl fadd t1 (map ii_total new2)"
  proof (cases "ir_parts req")
    case None
    with d3 show ?thesis by (intro exI [of _ "[]"]) auto
  next
    case (Some ps)
    with d3 have "part_items (invoices_seq d) ps t1 d2 = Inr (t3, d3)" by simp
    from part_items_effect [OF this] show ?thesis .
  qed
  then obtain new2 where new2:
    "d3 = d2\<lparr>invoice_items := invoice_items d2 @ new2,
                    invoice_items_seq := invoice_items_seq d2 + length new2\<rparr>"
    "list_all (\<lambda>it. ii_invoice_id it = invoices_seq d) new2"
    "t3 = foldl fadd t1 (map ii_total new2)"
    by auto
  have items: "invoice_items d' = invoice_items d @ new1 @ new2"
    by (simp add: d' update_invoice_totals_def new2(1) new1(1) d1_def)
  have old_items: "filter (\<lambda>it. ii_invoice_id it = invoices_seq d) (invoice_items d) = []"
    using ok by (auto simp: invoice_keys_ok_def list_all_iff filter_empty_conv)
  have fnew1: "filter (\<lambda>it. ii_invoice_id it = invoices_seq d) new1 = new1"
    using new1(2) by (simp add: list_all_iff)
  have fnew2: "filter (\<lambda>it. ii_invoice_id it = invoices_seq d) new2 = new2"
    using new2(2) by (simp add: list_all_iff)
  have sum_items: "foldl fadd (Fin 0)
      (map ii_total (filter (\<lambda>it. ii_invoice_id it = iid) (invoice_items d'))) = t3"
    by (simp add: iid items old_items fnew1 fnew2 new2(3) new1(3))
  have inv3: "invoices d3 = invoices d @ [row]"
    by (simp add: new2(1) new1(1) d1_def)
  have old_map: "filter (\<lambda>i. i_id i = invoices_seq d) (map f (invoices d)) = []"
    if "\<And>i. i_id (f i) = i_id i" for f
    using ok that by (auto simp: invoice_keys_ok_def list_all_iff filter_empty_conv)
  let ?inv = "row\<lparr>i_subtotal := subtotal, i_tax := tax, i_total := tot\<rparr>"
  have "filter (\<lambda>i. i_id i = iid) (invoices d') = [?inv]"
    unfolding d' update_invoice_totals_def iid
    by (simp add: inv3 old_map) (simp add: row_def)
  then show ?thesis
    using sum_items vd vals by (intro exI [of _ ?inv] exI [of _ days]) (simp add: row_def)
qed

text \<open>
  C10. A create-invoice request whose \<^verbatim>\<open>days_in_garage\<close> is the number 0 is answered
  400 with the validation message, whatever its vehicle id, services and parts are, and
  the store is left as it was: \<^verbatim>\<open>!days_in_garage\<close> holds of 0.
\<close>

theorem create_invoice_zero_days_rejected:
  "server P now
     (CreateInvoice \<lparr>ir_vehicle_id = Some vid, ir_days_in_garage = Some 0,
                      ir_services = svcs, ir_parts = ps\<rparr>) d
     = (Failure 400 ''Vehicle ID and days in garage are required.'', d)"
  by (simp add: server_routes create_invoice_def)

text \<open>
  C2. A create-invoice request whose parts list names a part id that is not in the parts
  table fails (400 when the validation already rejects it, 500 otherwise) and returns the
  store it was given: no invoice row and no item row is left behind.
\<close>

theorem create_invoice_missing_part_rolls_back:
  assumes "ir_parts req = Some ps"
    and "\<exists>pl\<in>set ps. \<forall>p\<in>set (parts d). p_id p \<noteq> pl_id pl"
  shows "server P now (CreateInvoice req) d
           = (Failure 400 ''Vehicle ID and days in garage are required.'', d)
       \<or> server P now (CreateInvoice req) d
           = (Failure 500 ''Server error generating invoice'', d)"
  using create_invoice_rejects_missing_part [OF assms] by (simp add: server_routes)

theorem create_invoice_missing_part_witness:
  "server demo_platform 1000
     (CreateInvoice \<lparr>ir_vehicle_id = Some 1, ir_days_in_garage = Some 2,
        ir_services = Some [\<lparr>sl_id = 1, sl_description = Some ''Oil change'',
                              sl_unit_price = Some 3000\<rparr>],
        ir_parts = Some [\<lparr>pl_id = 5, pl_description = None, pl_quantity = Some 2\<rparr>,
                         \<lparr>pl_id = 9, pl_description = None, pl_quantity = Some 1\<rparr>]\<rparr>)
     sample_db
   = (Failure 500 ''Server error generating invoice'', sample_db)"
proof -
  let ?ps = "[\<lparr>pl_id = 5, pl_description = None, pl_quantity = Some 2\<rparr>,
              \<lparr>pl_id = 9, pl_description = None, pl_quantity = Some 1\<rparr>]"
  let ?req = "\<lparr>ir_vehicle_id = Some 1, ir_days_in_garage = Some 2,
        ir_services = Some [\<lparr>sl_id = 1, sl_description = Some ''Oil change'',
                              sl_unit_price = Some 3000\<rparr>],
        ir_parts = Some ?ps\<rparr>"
  have h1: "ir_parts ?req = Some ?ps" by simp
  have h2: "\<exists>pl\<in>set ?ps. \<forall>p\<in>set (parts sample_db). p_id p \<noteq> pl_id pl"
    by (simp add: sample_db_def)
  have "fst (server demo_platform 1000 (CreateInvoice ?req) sample_db)
          \<noteq> Failure 400 ''Vehicle ID and days in garage are required.''"
    by (simp add: server_routes create_invoice_def split: sum.splits prod.splits)
  with create_invoice_missing_part_rolls_back [OF h1 h2, of demo_platform 1000]
  show ?thesis by auto
qed


lemma sample_invoice_keys_ok: "invoice_keys_ok sample_db"
  by (simp add: invoice_keys_ok_def sample_db_def)

section \<open>The binary64 arithmetic of the invoice amounts\<close>

text \<open>
  Known values: 0.1 and 0.18 as binary64, 0.1 + 0.2 = 0.30000000000000004, a tie going
  to the even significand, and a negative value.
\<close>

lemma binary64_examples:
  "binary64 (1 / 10) = Fin (3602879701896397 / 36028797018963968)"
  "binary64 (18 / 100) = Fin (3242591731706757 / 18014398509481984)"
  "fadd (binary64 (1 / 10)) (binary64 (2 / 10)) = Fin (1351079888211149 / 4503599627370496)"
  "binary64 (9007199254740993) = Fin 9007199254740992"
  "binary64 (9007199254740995) = Fin 9007199254740996"
  "binary64 (- (1 / 3)) = Fin (- (6004799503160661 / 18014398509481984))"
  by code_simp+

text \<open>
  A part line without quantity: \<^verbatim>\<open>Number(undefined)\<close> is NaN, nothing throws, and the
  invoice is committed with NaN as subtotal, tax and total.
\<close>

lemma create_invoice_without_quantity:
  "fst (create_invoice
      \<lparr>ir_vehicle_id = Some 1, ir_days_in_garage = Some 2, ir_services = None,
        ir_parts = Some [\<lparr>pl_id = 5, pl_description = None, pl_quantity = None\<rparr>]\<rparr>
      sample_db) = Success 201 (InvoiceCreated 2) \<and>
   map (\<lambda>i. (i_id i, i_subtotal i, i_tax i, i_total i))
     (invoices (snd (create_invoice
      \<lparr>ir_vehicle_id = Some 1, ir_days_in_garage = Some 2, ir_services = None,
        ir_parts = Some [\<lparr>pl_id = 5, pl_description = None, pl_quantity = None\<rparr>]\<rparr>
      sample_db)))
     = [(1, Fin 15000, Fin 2700, Fin 17700), (2, NaN, NaN, NaN)]"
  by code_simp

text \<open>
  The request of the specification's example on the worked store: a service at 3000, two
  parts at 1000, two days. The new invoice 2 has subtotal 15000, tax 2700, total 17700.
\<close>

lemma create_invoice_spec_example:
  "fst (create_invoice
      \<lparr>ir_vehicle_id = Some 1, ir_days_in_garage = Some 2,
        ir_services = Some [\<lparr>sl_id = 1, sl_description = Some ''Oil change'',
                              sl_unit_price = Some 3000\<rparr>],
        ir_parts = Some [\<lparr>pl_id = 5, pl_description = None, pl_quantity = Some 2\<rparr>]\<rparr>
      sample_db) = Success 201 (InvoiceCreated 2) \<and>
   map (\<lambda>i. (i_id i, i_subtotal i, i_tax i, i_total i))
     (invoices (snd (create_invoice
      \<lparr>ir_vehicle_id = Some 1, ir_days_in_garage = Some 2,
        ir_services = Some [\<lparr>sl_id = 1, sl_description = Some ''Oil change'',
                              sl_unit_price = Some 3000\<rparr>],
        ir_parts = Some [\<lparr>pl_id = 5, pl_description = None, pl_quantity = Some 2\<rparr>]\<rparr>
      sample_db)))
     = [(1, Fin 15000, Fin 2700, Fin 17700), (2, Fin 15000, Fin 2700, Fin 17700)]"
  by code_simp

text \<open>
  C1. The claim has tax = round(subtotal * 0.18) and total = subtotal + tax in the stored
  row. The create handler does not round: for a service line at 4 and one day the
  subtotal is 5004, and the row keeps the tax 7922816906963189/8796093022208
  (900.7199999999999 as JavaScript prints it) and the total
  6492308298761503/1099511627776 (5904.72), where the claim, and \<^verbatim>\<open>Math.round\<close> as the
  PDF handler applies it to the same product, give 901 and 5905.
\<close>

theorem create_invoice_stores_unrounded_tax:
  "fst (server P now
      (CreateInvoice \<lparr>ir_vehicle_id = Some 1, ir_days_in_garage = Some 1,
         ir_services = Some [\<lparr>sl_id = 1, sl_description = Some ''Oil change'',
                               sl_unit_price = Some 4\<rparr>],
         ir_parts = None\<rparr>)
      sample_db) = Success 201 (InvoiceCreated 2) \<and>
   map (\<lambda>i. (i_id i, i_subtotal i, i_tax i, i_total i))
     (invoices (snd (server P now
      (CreateInvoice \<lparr>ir_vehicle_id = Some 1, ir_days_in_garage = Some 1,
         ir_services = Some [\<lparr>sl_id = 1, sl_description = Some ''Oil change'',
                               sl_unit_price = Some 4\<rparr>],
         ir_parts = None\<rparr>)
      sample_db)))
   = [(1, Fin 15000, Fin 2700, Fin 17700),
      (2, Fin 5004, Fin (7922816906963189 / 8796093022208),
       Fin (6492308298761503 / 1099511627776))] \<and>
   Math_round (fmul (Fin 5004) (binary64 (18 / 100))) = Fin 901 \<and>
   fadd (Fin 5004) (Math_round (fmul (Fin 5004) (binary64 (18 / 100)))) = Fin 5905"
  unfolding server_routes by code_simp

text \<open>
  C5. The claim has the PDF print the stored tax and total. For a service line at 1 and
  one day the subtotal is 5001; the create handler stores the tax
  7918067016731197/8796093022208 (900.18) and the total 811052003449897/137438953472
  (5901.18), and the PDF handler prints 900 and 5901 for the same invoice.
\<close>

theorem invoice_pdf_differs_from_stored:
  "fst (server P later (RenderInvoicePdf 2)
     (snd (server P now
        (CreateInvoice \<lparr>ir_vehicle_id = Some 1, ir_days_in_garage = Some 1,
           ir_services = Some [\<lparr>sl_id = 1, sl_description = Some ''Oil change'',
                                 sl_unit_price = Some 1\<rparr>],
           ir_parts = None\<rparr>)
        sample_db)))
   = Success 200
       (InvoicePdf \<lparr>pdf_garage_stay = Fin 5000, pdf_subtotal = Fin 5001, pdf_tax = Fin 900,
                     pdf_total = Fin 5901\<rparr>
          [\<lparr>ii_id = 3, ii_invoice_id = 2, ii_item_type = ''service'', ii_item_id = 1,
            ii_description = Some ''Oil change'', ii_quantity = Some 1,
            ii_purchased_cost = None, ii_unit_price = Fin 1, ii_total = Fin 1\<rparr>]) \<and>
   map (\<lambda>i. (i_id i, i_subtotal i, i_tax i, i_total i))
     (invoices (snd (server P now
        (CreateInvoice \<lparr>ir_vehicle_id = Some 1, ir_days_in_garage = Some 1,
           ir_services = Some [\<lparr>sl_id = 1, sl_description = Some ''Oil change'',
                                 sl_unit_price = Some 1\<rparr>],
           ir_parts = None\<rparr>)
        sample_db)))
   = [(1, Fin 15000, Fin 2700, Fin 17700),
      (2, Fin 5001, Fin (7918067016731197 / 8796093022208),
       Fin (811052003449897 / 137438953472))]"
  unfolding server_routes by code_simp

section \<open>Deleting a vehicle\<close>

text \<open>
  The handler registered second does cascade: whatever it answers, no invoice of the
  vehicle, no item of such an invoice and no row of the vehicle is left.
\<close>

lemma delete_vehicle_cascade_no_orphans:
  assumes "delete_vehicle_cascade vid d = (res, d')"
  shows "filter (\<lambda>i. i_vehicle_id i = vid) (invoices d') = []"
    and "filter (\<lambda>it. ii_invoice_id it \<in> i_id ` {i \<in> set (invoices d). i_vehicle_id i = vid})
           (invoice_items d') = []"
    and "filter (\<lambda>v. v_id v = vid) (vehicles d') = []"
  using assms
  by (auto simp: delete_vehicle_cascade_def Let_def filter_empty_conv split: if_splits)

text \<open>
  C3. The claim is right about the cascading handler and wrong about the server: the
  request is answered by the handler registered first, which deletes the vehicle row
  only. On the worked store, deleting vehicle 1 answers 204 and leaves invoice 1 of
  vehicle 1 and both of its items in place.
\<close>

theorem delete_vehicle_leaves_invoice_rows:
  "server P now (RemoveVehicle 1) sample_db = (Success 204 NoContent, sample_db\<lparr>vehicles := []\<rparr>) \<and>
   map (\<lambda>i. (i_id i, i_vehicle_id i)) (invoices (snd (server P now (RemoveVehicle 1) sample_db)))
     = [(1, 1)] \<and>
   map (\<lambda>it. (ii_id it, ii_invoice_id it))
     (invoice_items (snd (server P now (RemoveVehicle 1) sample_db))) = [(1, 1), (2, 1)]"
  by (simp add: server_remove_vehicle delete_vehicle_def sample_db_def)

section \<open>Exit\<close>

lemma length_filter_pos_iff: "(0 < length (filter Q xs)) = (\<exists>x\<in>set xs. Q x)"
  by (induction xs) auto

lemma length_filter_zero_iff: "(length (filter Q xs) = 0) = (\<not> (\<exists>x\<in>set xs. Q x))"
  by (induction xs) auto

text \<open>
  C4. An exit request is answered in one of three ways. If some \<^verbatim>\<open>vehicle_services\<close> row of
  the vehicle has a status other than \<^verbatim>\<open>completed\<close>: 400 ``All services must be
  completed before exiting.'', store unchanged. Otherwise, if no invoice of the vehicle
  exists: 400 ``Invoice must be generated before exiting.'', store unchanged. Otherwise:
  200, and the \<^verbatim>\<open>exit_time\<close> of the vehicle's row is the current time, nothing else
  changed.
\<close>

theorem exit_vehicle_outcomes:
  "server P now (MarkExit vid) d =
     (if \<exists>r\<in>set (vehicle_services d). vs_vehicle_id r = vid \<and> vs_status r \<noteq> ''completed''
      then (Failure 400 ''All services must be completed before exiting.'', d)
      else if \<not> (\<exists>i\<in>set (invoices d). i_vehicle_id i = vid)
      then (Failure 400 ''Invoice must be generated before exiting.'', d)
      else (Success 200 (Message ''Vehicle exited successfully.''),
            d\<lparr>vehicles :=
                 map (\<lambda>v. if v_id v = vid then v\<lparr>v_exit_time := Some now\<rparr> else v)
                   (vehicles d)\<rparr>))"
  unfolding server_routes exit_vehicle_def length_filter_pos_iff length_filter_zero_iff
  by simp

text \<open>
  The three outcomes on the worked store: vehicle 1 exits at time 1000; with its service
  set back to pending it does not; a vehicle without invoice does not.
\<close>

theorem exit_vehicle_outcomes_witness:
  "map v_exit_time (vehicles (snd (server demo_platform 1000 (MarkExit 1) sample_db)))
     = [Some 1000] \<and>
   fst (server demo_platform 1000 (MarkExit 1) sample_db)
     = Success 200 (Message ''Vehicle exited successfully.'') \<and>
   server demo_platform 1000 (MarkExit 1)
     (sample_db\<lparr>vehicle_services :=
        [\<lparr>vs_vehicle_id = 1, vs_service_id = 1, vs_status = ''pending'',
          vs_completed_time = None\<rparr>]\<rparr>)
     = (Failure 400 ''All services must be completed before exiting.'',
        sample_db\<lparr>vehicle_services :=
          [\<lparr>vs_vehicle_id = 1, vs_service_id = 1, vs_status = ''pending'',
            vs_completed_time = None\<rparr>]\<rparr>) \<and>
   server demo_platform 1000 (MarkExit 1) (sample_db\<lparr>invoices := []\<rparr>)
     = (Failure 400 ''Invoice must be generated before exiting.'', sample_db\<lparr>invoices := []\<rparr>)"
proof -
  have a: "\<not> (\<exists>r\<in>set (vehicle_services sample_db).
               vs_vehicle_id r = 1 \<and> vs_status r \<noteq> ''completed'')"
    by (simp add: sample_db_def)
  have b: "\<exists>i\<in>set (invoices sample_db). i_vehicle_id i = 1"
    by (simp add: sample_db_def)
  have 1: "server demo_platform 1000 (MarkExit 1) sample_db
      = (Success 200 (Message ''Vehicle exited successfully.''),
            sample_db\<lparr>vehicles :=
                 map (\<lambda>v. if v_id v = 1 then v\<lparr>v_exit_time := Some 1000\<rparr> else v)
                   (vehicles sample_db)\<rparr>)"
    using a b by (simp only: exit_vehicle_outcomes [of demo_platform 1000 1 sample_db] simp_thms if_False if_True)
  have 2: "map v_exit_time (vehicles (snd (server demo_platform 1000 (MarkExit 1) sample_db)))
     = [Some 1000]"
    unfolding 1 by (simp add: sample_db_def)
  have 5: "fst (server demo_platform 1000 (MarkExit 1) sample_db)
     = Success 200 (Message ''Vehicle exited successfully.'')"
    unfolding 1 by simp
  have 3: "server demo_platform 1000 (MarkExit 1)
     (sample_db\<lparr>vehicle_services :=
        [\<lparr>vs_vehicle_id = 1, vs_service_id = 1, vs_status = ''pending'',
          vs_completed_time = None\<rparr>]\<rparr>)
     = (Failure 400 ''All services must be completed before exiting.'',
        sample_db\<lparr>vehicle_services :=
          [\<lparr>vs_vehicle_id = 1, vs_service_id = 1, vs_status = ''pending'',
            vs_completed_time = None\<rparr>]\<rparr>)"
    by (simp add: exit_vehicle_outcomes)
  have 4: "server demo_platform 1000 (MarkExit 1) (sample_db\<lparr>invoices := []\<rparr>)
     = (Failure 400 ''Invoice must be generated before exiting.'', sample_db\<lparr>invoices := []\<rparr>)"
    by (simp add: exit_vehicle_outcomes sample_db_def)
  from 2 5 3 4 show ?thesis
    by (intro conjI)
qed

section \<open>Deleting a worker\<close>

text \<open>
  C7. After a delete-worker request: every service that referred to the worker has
  \<^verbatim>\<open>worker_id\<close> NULL and the other services are as before; the worker's payments are
  gone and the other payments are as before; no row of the worker is left. The answer
  is 204 when a row of the worker existed and 404 ``Worker not found'' when none did.
\<close>

theorem delete_worker_effect:
  "fst (server P now (RemoveWorker wid) d) =
     (if wid \<in> w_id ` set (workers d) then Success 204 NoContent
      else Failure 404 ''Worker not found'') \<and>
   services (snd (server P now (RemoveWorker wid) d)) =
     map (\<lambda>s. if s_worker_id s = Some wid then s\<lparr>s_worker_id := None\<rparr> else s) (services d) \<and>
   filter (\<lambda>s. s_worker_id s = Some wid) (services (snd (server P now (RemoveWorker wid) d))) = [] \<and>
   worker_payments (snd (server P now (RemoveWorker wid) d)) =
     filter (\<lambda>p. wp_worker_id p \<noteq> wid) (worker_payments d) \<and>
   filter (\<lambda>p. wp_worker_id p = wid) (worker_payments (snd (server P now (RemoveWorker wid) d))) = [] \<and>
   filter (\<lambda>w. w_id w = wid) (workers (snd (server P now (RemoveWorker wid) d))) = []"
proof -
  have "(length (filter (\<lambda>w. w_id w = wid) (workers d)) = 0) = (wid \<notin> w_id ` set (workers d))"
    by (auto simp: filter_empty_conv)
  then show ?thesis
    by (auto simp: server_routes delete_worker_def Let_def filter_empty_conv)
qed

text \<open>
  The specification's example: worker 7, assigned to service 2 and paid three times.
\<close>

theorem delete_worker_effect_witness:
  "fst (server demo_platform 1000 (RemoveWorker 7) sample_db) = Success 204 NoContent \<and>
   map (\<lambda>s. (s_id s, s_worker_id s)) (services (snd (server demo_platform 1000 (RemoveWorker 7) sample_db)))
     = [(1, None), (2, None)] \<and>
   worker_payments (snd (server demo_platform 1000 (RemoveWorker 7) sample_db)) = [] \<and>
   workers (snd (server demo_platform 1000 (RemoveWorker 7) sample_db)) = [] \<and>
   fst (server demo_platform 1000 (RemoveWorker 8) sample_db) = Failure 404 ''Worker not found''"
proof -
  note t = delete_worker_effect [of demo_platform 1000 7 sample_db]
  note u = delete_worker_effect [of demo_platform 1000 8 sample_db]
  have w: "workers (snd (server demo_platform 1000 (RemoveWorker 7) sample_db)) = []"
    by (simp add: server_routes delete_worker_def sample_db_def)
  show ?thesis
    using t u w by (simp add: sample_db_def)
qed


section \<open>Updating a vehicle\<close>

lemma fold_insert_vehicle_service:
  "fold (insert_vehicle_service i) ys d =
     d\<lparr>vehicle_services := vehicle_services d @
          map (\<lambda>sid. \<lparr>vs_vehicle_id = i, vs_service_id = sid, vs_status = ''pending'',
                       vs_completed_time = None\<rparr>) ys\<rparr>"
  by (induction ys arbitrary: d) (simp_all add: insert_vehicle_service_def)

lemma fold_insert_vehicle_part:
  "fold (insert_vehicle_part i) ys d =
     d\<lparr>vehicle_parts := vehicle_parts d @
          map (\<lambda>p. \<lparr>vp_vehicle_id = i, vp_part_id = sp_part_id p,
                     vp_quantity = sp_quantity p\<rparr>) ys\<rparr>"
  by (induction ys arbitrary: d) (simp_all add: insert_vehicle_part_def)

lemma fold_insert_vehicle_service_part:
  "fold (insert_vehicle_service_part i) ys d =
     d\<lparr>vehicle_service_parts := vehicle_service_parts d @
          map (\<lambda>p. \<lparr>vsp_vehicle_id = i, vsp_service_id = spp_service_id p,
                     vsp_part_id = spp_part_id p, vsp_quantity = spp_quantity p\<rparr>) ys\<rparr>"
  by (induction ys arbitrary: d) (simp_all add: insert_vehicle_service_part_def)

lemma for_each_insert_vehicle_service:
  "for_each (insert_vehicle_service i) xs d =
     d\<lparr>vehicle_services := vehicle_services d @
          map (\<lambda>sid. \<lparr>vs_vehicle_id = i, vs_service_id = sid, vs_status = ''pending'',
                       vs_completed_time = None\<rparr>) (elements xs)\<rparr>"
  by (cases xs) (simp_all add: for_each_def fold_insert_vehicle_service)

lemma for_each_insert_vehicle_part:
  "for_each (insert_vehicle_part i) xs d =
     d\<lparr>vehicle_parts := vehicle_parts d @
          map (\<lambda>p. \<lparr>vp_vehicle_id = i, vp_part_id = sp_part_id p,
                     vp_quantity = sp_quantity p\<rparr>) (elements xs)\<rparr>"
  by (cases xs) (simp_all add: for_each_def fold_insert_vehicle_part)

lemma for_each_insert_vehicle_service_part:
  "for_each (insert_vehicle_service_part i) xs d =
     d\<lparr>vehicle_service_parts := vehicle_service_parts d @
          map (\<lambda>p. \<lparr>vsp_vehicle_id = i, vsp_service_id = spp_service_id p,
                     vsp_part_id = spp_part_id p, vsp_quantity = spp_quantity p\<rparr>)
            (elements xs)\<rparr>"
  by (cases xs) (simp_all add: for_each_def fold_insert_vehicle_service_part)

lemmas for_each_inserts =
  for_each_insert_vehicle_service for_each_insert_vehicle_part
  for_each_insert_vehicle_service_part

lemma update_vehicle_ids:
  "v_id ` set (vehicles (snd (update_vehicle vid req d))) = v_id ` set (vehicles d)"
proof -
  have "v_id ` set (map (\<lambda>v. if v_id v = vid then set_vehicle_columns p ow c req v else v) xs)
      = v_id ` set xs" for p ow c xs
    by (induction xs) (auto simp: set_vehicle_columns_def)
  then show ?thesis
    by (auto simp: update_vehicle_def Let_def for_each_inserts
        split: option.splits list.splits)
qed

lemma update_vehicle_other_rows:
  "filter (\<lambda>r. vp_vehicle_id r \<noteq> vid) (vehicle_parts (snd (update_vehicle vid req d)))
     = filter (\<lambda>r. vp_vehicle_id r \<noteq> vid) (vehicle_parts d)"
  "filter (\<lambda>r. vsp_vehicle_id r \<noteq> vid) (vehicle_service_parts (snd (update_vehicle vid req d)))
     = filter (\<lambda>r. vsp_vehicle_id r \<noteq> vid) (vehicle_service_parts d)"
  by (auto simp: update_vehicle_def Let_def for_each_inserts filter_empty_conv
      split: option.splits list.splits)

lemma update_vehicle_accepted:
  assumes valid: "\<not> falsy_str (vr_plate req)" "\<not> falsy_str (vr_owner req)"
      "\<not> falsy_str (vr_contact_number req)"
    and present: "vid \<in> v_id ` set (vehicles d)"
  shows "\<exists>row. fst (update_vehicle vid req d) = Success 200 (VehicleRow row)"
    and "filter (\<lambda>r. vp_vehicle_id r = vid) (vehicle_parts (snd (update_vehicle vid req d)))
       = map (\<lambda>p. \<lparr>vp_vehicle_id = vid, vp_part_id = sp_part_id p,
                    vp_quantity = sp_quantity p\<rparr>) (elements (vr_standalone_parts req))"
    and "filter (\<lambda>r. vsp_vehicle_id r = vid)
           (vehicle_service_parts (snd (update_vehicle vid req d)))
       = map (\<lambda>p. \<lparr>vsp_vehicle_id = vid, vsp_service_id = spp_service_id p,
                    vsp_part_id = spp_part_id p, vsp_quantity = spp_quantity p\<rparr>)
           (elements (vr_service_parts req))"
proof -
  from valid obtain plate owner contact where
    f: "vr_plate req = Some plate" "vr_owner req = Some owner"
       "vr_contact_number req = Some contact"
    by (cases "vr_plate req"; cases "vr_owner req"; cases "vr_contact_number req") auto
  let ?vs = "map (\<lambda>v. if v_id v = vid then set_vehicle_columns plate owner contact req v else v)
               (vehicles d)"
  from present obtain v where "v \<in> set (vehicles d)" "v_id v = vid"
    by auto
  then have "set_vehicle_columns plate owner contact req v \<in> set (filter (\<lambda>v. v_id v = vid) ?vs)"
    by (auto simp: set_vehicle_columns_def intro!: image_eqI [of _ _ v])
  then obtain row rest where rows: "filter (\<lambda>v. v_id v = vid) ?vs = row # rest"
    by (cases "filter (\<lambda>v. v_id v = vid) ?vs") auto
  have *: "filter (\<lambda>r. vp_vehicle_id r = vid) (filter (\<lambda>r. vp_vehicle_id r \<noteq> vid) xs) = []"
    for xs
    by (simp add: filter_empty_conv)
  have **: "filter (\<lambda>r. vsp_vehicle_id r = vid) (filter (\<lambda>r. vsp_vehicle_id r \<noteq> vid) xs) = []"
    for xs
    by (simp add: filter_empty_conv)
  from valid f rows show "\<exists>row. fst (update_vehicle vid req d) = Success 200 (VehicleRow row)"
    by (simp add: update_vehicle_def Let_def)
  from valid f rows show
    "filter (\<lambda>r. vp_vehicle_id r = vid) (vehicle_parts (snd (update_vehicle vid req d)))
       = map (\<lambda>p. \<lparr>vp_vehicle_id = vid, vp_part_id = sp_part_id p,
                    vp_quantity = sp_quantity p\<rparr>) (elements (vr_standalone_parts req))"
    by (simp add: update_vehicle_def Let_def for_each_inserts * filter_map comp_def)
  from valid f rows show
    "filter (\<lambda>r. vsp_vehicle_id r = vid)
           (vehicle_service_parts (snd (update_vehicle vid req d)))
       = map (\<lambda>p. \<lparr>vsp_vehicle_id = vid, vsp_service_id = spp_service_id p,
                    vsp_part_id = spp_part_id p, vsp_quantity = spp_quantity p\<rparr>)
           (elements (vr_service_parts req))"
    by (simp add: update_vehicle_def Let_def for_each_inserts ** filter_map comp_def)
qed

text \<open>
  C6. Take a vehicle that exists and two update requests in a row, the second with its
  required fields present. Whatever the first request was and did, the second answers 200
  and the vehicle's rows in \<^verbatim>\<open>vehicle_parts\<close> and \<^verbatim>\<open>vehicle_service_parts\<close> are then exactly
  the rows of the second request's lists, in order (none when a list is not an array);
  the rows of other vehicles are as they were before the two requests.
\<close>

theorem update_vehicle_replaces_parts:
  assumes "\<not> falsy_str (vr_plate r2)" "\<not> falsy_str (vr_owner r2)"
      "\<not> falsy_str (vr_contact_number r2)"
    and "vid \<in> v_id ` set (vehicles d)"
    and "server P t1 (UpdateVehicle vid r1) d = (res1, d1)"
    and "server P t2 (UpdateVehicle vid r2) d1 = (res2, d2)"
  shows "(\<exists>row. res2 = Success 200 (VehicleRow row)) \<and>
     filter (\<lambda>r. vp_vehicle_id r = vid) (vehicle_parts d2)
       = map (\<lambda>p. \<lparr>vp_vehicle_id = vid, vp_part_id = sp_part_id p,
                    vp_quantity = sp_quantity p\<rparr>) (elements (vr_standalone_parts r2)) \<and>
     filter (\<lambda>r. vsp_vehicle_id r = vid) (vehicle_service_parts d2)
       = map (\<lambda>p. \<lparr>vsp_vehicle_id = vid, vsp_service_id = spp_service_id p,
                    vsp_part_id = spp_part_id p, vsp_quantity = spp_quantity p\<rparr>)
           (elements (vr_service_parts r2)) \<and>
     filter (\<lambda>r. vp_vehicle_id r \<noteq> vid) (vehicle_parts d2)
       = filter (\<lambda>r. vp_vehicle_id r \<noteq> vid) (vehicle_parts d) \<and>
     filter (\<lambda>r. vsp_vehicle_id r \<noteq> vid) (vehicle_service_parts d2)
       = filter (\<lambda>r. vsp_vehicle_id r \<noteq> vid) (vehicle_service_parts d)"
proof -
  from assms(5) have d1: "d1 = snd (update_vehicle vid r1 d)"
    by (simp add: server_routes)
  from assms(6) have d2: "d2 = snd (update_vehicle vid r2 d1)"
    and res2: "res2 = fst (update_vehicle vid r2 d1)"
    by (simp_all add: server_routes)
  from assms(4) have present: "vid \<in> v_id ` set (vehicles d1)"
    unfolding d1 update_vehicle_ids .
  note acc = update_vehicle_accepted [OF assms(1-3) present]
  show ?thesis
    using acc unfolding d2 res2
    by (simp add: update_vehicle_other_rows) (simp add: d1 update_vehicle_other_rows)
qed

theorem update_vehicle_replaces_parts_witness:
  "\<exists>res1 d1 res2 d2.
     server demo_platform 1000
       (UpdateVehicle 1
          \<lparr>vr_plate = Some ''RAB123A'', vr_make = None, vr_model_name = None, vr_year = None,
            vr_vin = None, vr_owner = Some ''Alice'', vr_contact_number = Some ''0780000000'',
            vr_service_ids = None,
            vr_standalone_parts = Some [\<lparr>sp_part_id = 5, sp_quantity = 1\<rparr>,
                                        \<lparr>sp_part_id = 5, sp_quantity = 3\<rparr>],
            vr_service_parts = Some [\<lparr>spp_service_id = 1, spp_part_id = 5,
                                      spp_quantity = 1\<rparr>]\<rparr>)
       sample_db = (res1, d1) \<and>
     server demo_platform 2000
       (UpdateVehicle 1
          \<lparr>vr_plate = Some ''RAB123A'', vr_make = None, vr_model_name = None, vr_year = None,
            vr_vin = None, vr_owner = Some ''Alice'', vr_contact_number = Some ''0780000000'',
            vr_service_ids = None,
            vr_standalone_parts = Some [\<lparr>sp_part_id = 5, sp_quantity = 4\<rparr>],
            vr_service_parts = None\<rparr>)
       d1 = (res2, d2) \<and>
     vehicle_parts d2 = [\<lparr>vp_vehicle_id = 1, vp_part_id = 5, vp_quantity = 4\<rparr>] \<and>
     vehicle_service_parts d2 = []"
proof -
  let ?r1 = "\<lparr>vr_plate = Some ''RAB123A'', vr_make = None, vr_model_name = None, vr_year = None,
            vr_vin = None, vr_owner = Some ''Alice'', vr_contact_number = Some ''0780000000'',
            vr_service_ids = None,
            vr_standalone_parts = Some [\<lparr>sp_part_id = 5, sp_quantity = 1\<rparr>,
                                        \<lparr>sp_part_id = 5, sp_quantity = 3\<rparr>],
            vr_service_parts = Some [\<lparr>spp_service_id = 1, spp_part_id = 5,
                                      spp_quantity = 1\<rparr>]\<rparr>"
  let ?r2 = "\<lparr>vr_plate = Some ''RAB123A'', vr_make = None, vr_model_name = None, vr_year = None,
            vr_vin = None, vr_owner = Some ''Alice'', vr_contact_number = Some ''0780000000'',
            vr_service_ids = None,
            vr_standalone_parts = Some [\<lparr>sp_part_id = 5, sp_quantity = 4\<rparr>],
            vr_service_parts = None\<rparr>"
  obtain res1 d1 where s1: "server demo_platform 1000 (UpdateVehicle 1 ?r1) sample_db = (res1, d1)"
    by (cases "server demo_platform 1000 (UpdateVehicle 1 ?r1) sample_db")
  obtain res2 d2 where s2: "server demo_platform 2000 (UpdateVehicle 1 ?r2) d1 = (res2, d2)"
    by (cases "server demo_platform 2000 (UpdateVehicle 1 ?r2) d1")
  have v: "\<not> falsy_str (vr_plate ?r2)" "\<not> falsy_str (vr_owner ?r2)"
      "\<not> falsy_str (vr_contact_number ?r2)"
    by simp_all
  have p: "(1::nat) \<in> v_id ` set (vehicles sample_db)"
    by (simp add: sample_db_def)
  have other: "filter (\<lambda>r. vp_vehicle_id r \<noteq> 1) (vehicle_parts sample_db) = []"
    "filter (\<lambda>r. vsp_vehicle_id r \<noteq> 1) (vehicle_service_parts sample_db) = []"
    by (simp_all add: sample_db_def)
  from update_vehicle_replaces_parts [OF v p s1 s2]
  have own: "filter (\<lambda>r. vp_vehicle_id r = 1) (vehicle_parts d2)
       = [\<lparr>vp_vehicle_id = 1, vp_part_id = 5, vp_quantity = 4\<rparr>]"
    "filter (\<lambda>r. vsp_vehicle_id r = 1) (vehicle_service_parts d2) = []"
    "filter (\<lambda>r. vp_vehicle_id r \<noteq> 1) (vehicle_parts d2) = []"
    "filter (\<lambda>r. vsp_vehicle_id r \<noteq> 1) (vehicle_service_parts d2) = []"
    using other by simp_all
  have all_own: "filter Q xs = [] \<Longrightarrow> filter (\<lambda>r. \<not> Q r) xs = xs" for Q :: "'a \<Rightarrow> bool" and xs
    by (induction xs) (auto split: if_splits)
  from own(3) have "filter (\<lambda>r. \<not> vp_vehicle_id r \<noteq> 1) (vehicle_parts d2) = vehicle_parts d2"
    by (rule all_own)
  with own(1) have a: "vehicle_parts d2 = [\<lparr>vp_vehicle_id = 1, vp_part_id = 5, vp_quantity = 4\<rparr>]"
    by simp
  from own(4) have "filter (\<lambda>r. \<not> vsp_vehicle_id r \<noteq> 1) (vehicle_service_parts d2)
      = vehicle_service_parts d2"
    by (rule all_own)
  with own(2) have b: "vehicle_service_parts d2 = []"
    by simp
  from s1 s2 a b show ?thesis by blast
qed


section \<open>Adding a payment\<close>

text \<open>
  C8 (as amended). The add-payment request is answered 400 ``Invalid amount'' exactly when
  the amount is falsy (absent, null, false, the number 0, the empty string) or does not
  convert to a number, and then the store is unchanged. Otherwise it is answered 201 with
  the row it appended, whose amount is the converted amount and whose \<^verbatim>\<open>payment_date\<close> is
  the date's time value when the supplied \<^verbatim>\<open>payment_date\<close> is truthy and makes a valid
  date, and the store's current time in every other case.
\<close>

theorem add_payment_outcomes:
  "((fst (server P now (AddPayment wid req) d) = Failure 400 ''Invalid amount'')
      = (\<not> truthy (pr_amount req) \<or> Number P (pr_amount req) = None)) \<and>
   (\<not> truthy (pr_amount req) \<or> Number P (pr_amount req) = None \<longrightarrow>
      server P now (AddPayment wid req) d = (Failure 400 ''Invalid amount'', d)) \<and>
   (truthy (pr_amount req) \<and> Number P (pr_amount req) = Some amount \<longrightarrow>
      (\<exists>row. server P now (AddPayment wid req) d
               = (Success 201 (PaymentRow row),
                  d\<lparr>worker_payments := worker_payments d @ [row],
                    worker_payments_seq := Suc (worker_payments_seq d)\<rparr>) \<and>
             wp_worker_id row = wid \<and> wp_amount row = amount \<and>
             wp_payment_date row =
               (if truthy (pr_payment_date req)
                then (case DateValue P (pr_payment_date req) of Some t \<Rightarrow> t | None \<Rightarrow> now)
                else now)))"
proof -
  have c: "coalesce (payment_when P v) now =
      (if truthy v then (case DateValue P v of Some t \<Rightarrow> t | None \<Rightarrow> now) else now)" for v
    by (simp add: payment_when_def split: option.splits)
  show ?thesis
    by (auto simp: server_routes add_payment_def Let_def c split: option.splits)
qed

text \<open>
  A payment of 2500 dated 1234 keeps its date; the same payment with an empty or absent
  date gets the current time 1000.
\<close>

theorem add_payment_outcomes_witness:
  "truthy (JNum 2500) \<and> Number demo_platform (JNum 2500) = Some 2500 \<and>
   map wp_payment_date (worker_payments (snd (server demo_platform 1000
      (AddPayment 7 \<lparr>pr_amount = JNum 2500, pr_method = Some ''cash'', pr_notes = None,
                      pr_payment_date = JNum 1234\<rparr>) sample_db)))
     = [300, 400, 500, 1234] \<and>
   map wp_payment_date (worker_payments (snd (server demo_platform 1000
      (AddPayment 7 \<lparr>pr_amount = JNum 2500, pr_method = Some ''cash'', pr_notes = None,
                      pr_payment_date = JUndefined\<rparr>) sample_db)))
     = [300, 400, 500, 1000] \<and>
   map wp_payment_date (worker_payments (snd (server demo_platform 1000
      (AddPayment 7 \<lparr>pr_amount = JNum 2500, pr_method = Some ''cash'', pr_notes = None,
                      pr_payment_date = JStr ''soon''\<rparr>) sample_db)))
     = [300, 400, 500, 1000] \<and>
   server demo_platform 1000
      (AddPayment 7 \<lparr>pr_amount = JStr ''a lot'', pr_method = None, pr_notes = None,
                      pr_payment_date = JUndefined\<rparr>) sample_db
     = (Failure 400 ''Invalid amount'', sample_db)"
proof -
  let ?r1 = "\<lparr>pr_amount = JNum 2500, pr_method = Some ''cash'', pr_notes = None,
                      pr_payment_date = JNum 1234\<rparr>"
  let ?r2 = "\<lparr>pr_amount = JNum 2500, pr_method = Some ''cash'', pr_notes = None,
                      pr_payment_date = JUndefined\<rparr>"
  let ?r3 = "\<lparr>pr_amount = JNum 2500, pr_method = Some ''cash'', pr_notes = None,
                      pr_payment_date = JStr ''soon''\<rparr>"
  let ?r4 = "\<lparr>pr_amount = JStr ''a lot'', pr_method = None, pr_notes = None,
                      pr_payment_date = JUndefined\<rparr>"
  have dates: "map wp_payment_date (worker_payments sample_db) = [300, 400, 500]"
    by (simp add: sample_db_def)
  have 1: "map wp_payment_date (worker_payments (snd (server demo_platform 1000
      (AddPayment 7 ?r1) sample_db))) = [300, 400, 500, 1234]"
    using add_payment_outcomes [of demo_platform 1000 7 ?r1 sample_db 2500] dates
    by (auto simp: demo_platform_def)
  have 2: "map wp_payment_date (worker_payments (snd (server demo_platform 1000
      (AddPayment 7 ?r2) sample_db))) = [300, 400, 500, 1000]"
    using add_payment_outcomes [of demo_platform 1000 7 ?r2 sample_db 2500] dates
    by (auto simp: demo_platform_def)
  have 3: "map wp_payment_date (worker_payments (snd (server demo_platform 1000
      (AddPayment 7 ?r3) sample_db))) = [300, 400, 500, 1000]"
    using add_payment_outcomes [of demo_platform 1000 7 ?r3 sample_db 2500] dates
    by (auto simp: demo_platform_def)
  have 4: "server demo_platform 1000 (AddPayment 7 ?r4) sample_db
     = (Failure 400 ''Invalid amount'', sample_db)"
    using add_payment_outcomes [of demo_platform 1000 7 ?r4 sample_db 0]
    by (simp add: demo_platform_def)
  from 1 2 3 4 show ?thesis
    by simp
qed

text \<open>
  C8 as stated fails: the amount 0 is present and numeric (\<^verbatim>\<open>Number(0)\<close> is 0, not NaN) and
  the request is answered 400 ``Invalid amount''.
\<close>

theorem add_payment_rejects_zero_amount:
  "server demo_platform 1000
     (AddPayment 7 \<lparr>pr_amount = JNum 0, pr_method = Some ''cash'', pr_notes = None,
                     pr_payment_date = JUndefined\<rparr>) sample_db
     = (Failure 400 ''Invalid amount'', sample_db) \<and>
   JNum 0 \<noteq> JUndefined \<and> JNum 0 \<noteq> JNull \<and>
   Number demo_platform (JNum 0) = Some 0"
  by (simp add: server_routes add_payment_def)


section \<open>The exit time over all requests\<close>

lemma service_items_vehicles: "vehicles (snd (service_items iid svcs t d)) = vehicles d"
proof (cases "service_items iid svcs t d")
  case (Pair t' d')
  from service_items_effect [OF this] Pair show ?thesis by auto
qed

lemma part_items_vehicles: "part_items iid ps t d = Inr (t', d') \<Longrightarrow> vehicles d' = vehicles d"
  by (drule part_items_effect) auto

lemma invoice_transaction_vehicles:
  assumes "invoice_transaction vid days req d = Inr (iid, d')"
  shows "vehicles d' = vehicles d"
proof -
  let ?i = "fst (insert_invoice vid days d)"
  let ?d1 = "snd (insert_invoice vid days d)"
  let ?sv = "case ir_services req of None \<Rightarrow> (Fin 0, ?d1)
             | Some svcs \<Rightarrow> service_items ?i svcs (Fin 0) ?d1"
  have v2: "vehicles (snd ?sv) = vehicles d"
    by (cases "ir_services req") (simp_all add: service_items_vehicles insert_invoice_def)
  from assms obtain t3 d3 where
    d3: "(case ir_parts req of None \<Rightarrow> Inr (fst ?sv, snd ?sv)
          | Some ps \<Rightarrow> part_items ?i ps (fst ?sv) (snd ?sv)) = Inr (t3, d3)"
    and d': "vehicles d' = vehicles d3"
    by (auto simp: invoice_transaction_def Let_def split_beta update_invoice_totals_def
        split: sum.splits)
  have "vehicles d3 = vehicles (snd ?sv)"
  proof (cases "ir_parts req")
    case None
    with d3 show ?thesis by simp
  next
    case (Some ps)
    with d3 have "part_items ?i ps (fst ?sv) (snd ?sv) = Inr (t3, d3)" by simp
    then show ?thesis by (rule part_items_vehicles)
  qed
  with d' v2 show ?thesis by simp
qed

lemma create_invoice_vehicles: "vehicles (snd (create_invoice req d)) = vehicles d"
  by (auto simp: create_invoice_def split: option.splits sum.splits
      dest: invoice_transaction_vehicles)

lemma unique_vehicle_row:
  "distinct (map v_id xs) \<Longrightarrow> v \<in> set xs \<Longrightarrow> v' \<in> set xs \<Longrightarrow> v_id v' = v_id v \<Longrightarrow> v' = v"
  by (induction xs) (auto simp: image_iff)

lemma other_requests_keep_vehicles:
  "vehicles (snd (create_part pb d)) = vehicles d"
  "vehicles (snd (update_part i pb d)) = vehicles d"
  "vehicles (snd (delete_part i d)) = vehicles d"
  "vehicles (snd (create_worker wb d)) = vehicles d"
  "vehicles (snd (delete_worker i d)) = vehicles d"
  "vehicles (snd (assign_worker i w d)) = vehicles d"
  "vehicles (snd (update_service_status i j sb d)) = vehicles d"
  "vehicles (snd (delete_invoice i d)) = vehicles d"
  "vehicles (snd (add_payment P now i yb d)) = vehicles d"
  by (auto simp: create_part_def update_part_def delete_part_def create_worker_def
      delete_worker_def assign_worker_def update_service_status_def delete_invoice_def
      add_payment_def Let_def split: option.splits list.splits)

lemma create_vehicle_vehicles:
  "vehicles (snd (create_vehicle now vb d)) = vehicles d \<or>
   (\<exists>new. vehicles (snd (create_vehicle now vb d)) = vehicles d @ [new] \<and>
          v_id new = vehicles_seq d \<and> v_exit_time new = None)"
  by (auto simp: create_vehicle_def Let_def for_each_inserts split: option.splits)

lemma update_vehicle_vehicles:
  "vehicles (snd (update_vehicle i vb d)) = vehicles d \<or>
   (\<exists>p ow c. vehicles (snd (update_vehicle i vb d)) =
      map (\<lambda>v. if v_id v = i then set_vehicle_columns p ow c vb v else v) (vehicles d))"
  by (auto simp: update_vehicle_def Let_def for_each_inserts split: option.splits list.splits)

text \<open>
  C9 (as amended). On a store with distinct vehicle keys below the counter, for a vehicle
  that exists: no request other than an exit request for that vehicle changes its
  \<^verbatim>\<open>exit_time\<close> (the row keeps it as long as the row exists), and an exit request for it
  that is answered 200 sets \<^verbatim>\<open>exit_time\<close> to the time of that request, whatever
  \<^verbatim>\<open>exit_time\<close> was before: the handler has no test of the old value.
\<close>

theorem exit_time_written_by_every_exit:
  assumes "vehicle_keys_ok d" and "v \<in> set (vehicles d)"
  shows "(c \<noteq> MarkExit (v_id v) \<longrightarrow>
            (\<forall>v'\<in>set (vehicles (snd (server P now c d))).
               v_id v' = v_id v \<longrightarrow> v_exit_time v' = v_exit_time v)) \<and>
         (fst (server P now (MarkExit (v_id v)) d)
            = Success 200 (Message ''Vehicle exited successfully.'') \<longrightarrow>
            (\<exists>v'\<in>set (vehicles (snd (server P now (MarkExit (v_id v)) d))). v_id v' = v_id v) \<and>
            (\<forall>v'\<in>set (vehicles (snd (server P now (MarkExit (v_id v)) d))).
               v_id v' = v_id v \<longrightarrow> v_exit_time v' = Some now))"
proof (intro conjI impI ballI)
  fix v'
  assume c: "c \<noteq> MarkExit (v_id v)"
    and v': "v' \<in> set (vehicles (snd (server P now c d)))" and same: "v_id v' = v_id v"
  from assms have dist: "distinct (map v_id (vehicles d))"
    and below: "v_id v < vehicles_seq d"
    by (auto simp: vehicle_keys_ok_def list_all_iff)
  have kept: "v_exit_time v' = v_exit_time v" if "v' \<in> set (vehicles d)"
    using unique_vehicle_row [OF dist assms(2) that same] by simp
  show "v_exit_time v' = v_exit_time v"
  proof (cases c)
    case (CreateVehicle vb)
    with v' below same create_vehicle_vehicles [of now vb d] show ?thesis
      by (auto simp: server_routes kept)
  next
    case (UpdateVehicle i vb)
    from update_vehicle_vehicles [of i vb d] show ?thesis
    proof
      assume "vehicles (snd (update_vehicle i vb d)) = vehicles d"
      with v' UpdateVehicle show ?thesis by (simp add: server_routes kept)
    next
      assume "\<exists>p ow c. vehicles (snd (update_vehicle i vb d)) =
        map (\<lambda>v. if v_id v = i then set_vehicle_columns p ow c vb v else v) (vehicles d)"
      then obtain p ow c' where "vehicles (snd (update_vehicle i vb d)) =
        map (\<lambda>v. if v_id v = i then set_vehicle_columns p ow c' vb v else v) (vehicles d)"
        by blast
      with v' UpdateVehicle obtain u where u: "u \<in> set (vehicles d)"
        and v'_def: "v' = (if v_id u = i then set_vehicle_columns p ow c' vb u else u)"
        by (auto simp: server_routes)
      then have "v_id u = v_id v'" "v_exit_time u = v_exit_time v'"
        by (auto simp: set_vehicle_columns_def)
      with unique_vehicle_row [OF dist assms(2) u] same show ?thesis by simp
    qed
  next
    case (MarkExit i)
    with c have "i \<noteq> v_id v" by simp
    with v' MarkExit same have "v' \<in> set (vehicles d)"
      by (auto simp: server_routes exit_vehicle_def split: if_splits)
    then show ?thesis by (rule kept)
  next
    case (RemoveVehicle i)
    with v' have "v' \<in> set (vehicles d)"
      by (auto simp: server_remove_vehicle delete_vehicle_def Let_def split: if_splits)
    then show ?thesis by (rule kept)
  next
    case (CreateInvoice ib)
    with v' show ?thesis by (simp add: server_routes create_invoice_vehicles kept)
  qed (use v' in \<open>simp_all add: server_routes other_requests_keep_vehicles kept\<close>)
next
  assume ok: "fst (server P now (MarkExit (v_id v)) d)
            = Success 200 (Message ''Vehicle exited successfully.'')"
  then have d': "vehicles (snd (server P now (MarkExit (v_id v)) d)) =
      map (\<lambda>u. if v_id u = v_id v then u\<lparr>v_exit_time := Some now\<rparr> else u) (vehicles d)"
    by (auto simp: server_routes exit_vehicle_def split: if_splits)
  let ?f = "\<lambda>u. if v_id u = v_id v then u\<lparr>v_exit_time := Some now\<rparr> else u"
  from assms(2) have "?f v \<in> set (map ?f (vehicles d))"
    by (simp only: set_map) (rule imageI)
  moreover have "v_id (?f v) = v_id v"
    by simp
  ultimately show
    "\<exists>v'\<in>set (vehicles (snd (server P now (MarkExit (v_id v)) d))). v_id v' = v_id v"
    unfolding d' by (rule bexI [rotated])
  fix v'
  assume "v' \<in> set (vehicles (snd (server P now (MarkExit (v_id v)) d)))" "v_id v' = v_id v"
  then show "v_exit_time v' = Some now"
    unfolding d' by auto
qed


lemma sample_vehicle_keys_ok: "vehicle_keys_ok sample_db"
  by (simp add: vehicle_keys_ok_def sample_db_def)

lemma single_row_column:
  assumes "map v_id xs = [k]" and "\<forall>v'\<in>set xs. v_id v' = k \<longrightarrow> v_exit_time v' = t"
  shows "map v_exit_time xs = [t]"
proof -
  from assms(1) obtain a where "xs = [a]" "v_id a = k"
    by (cases xs) auto
  with assms(2) show ?thesis by simp
qed

text \<open>
  On the worked store, an update of vehicle 1 leaves its \<^verbatim>\<open>exit_time\<close> NULL, and its exit
  at time 1000 sets it to 1000.
\<close>

theorem exit_time_written_by_every_exit_witness:
  "vehicle_keys_ok sample_db \<and>
   hd (vehicles sample_db) \<in> set (vehicles sample_db) \<and>
   map v_exit_time (vehicles (snd (server demo_platform 1000
      (UpdateVehicle 1
          \<lparr>vr_plate = Some ''RAB123A'', vr_make = None, vr_model_name = None, vr_year = None,
            vr_vin = None, vr_owner = Some ''Bob'', vr_contact_number = Some ''0780000000'',
            vr_service_ids = None, vr_standalone_parts = None, vr_service_parts = None\<rparr>)
      sample_db))) = [None] \<and>
   fst (server demo_platform 1000 (MarkExit 1) sample_db)
     = Success 200 (Message ''Vehicle exited successfully.'') \<and>
   map v_exit_time (vehicles (snd (server demo_platform 1000 (MarkExit 1) sample_db)))
     = [Some 1000]"
proof -
  let ?v = "hd (vehicles sample_db)"
  let ?c = "UpdateVehicle 1
          \<lparr>vr_plate = Some ''RAB123A'', vr_make = None, vr_model_name = None, vr_year = None,
            vr_vin = None, vr_owner = Some ''Bob'', vr_contact_number = Some ''0780000000'',
            vr_service_ids = None, vr_standalone_parts = None, vr_service_parts = None\<rparr>"
  have mem: "?v \<in> set (vehicles sample_db)"
    by (simp add: sample_db_def)
  have v: "v_id ?v = 1" "v_exit_time ?v = None"
    by (simp_all add: sample_db_def)
  have ne: "?c \<noteq> MarkExit (v_id ?v)"
    by simp
  have ok: "fst (server demo_platform 1000 (MarkExit 1) sample_db)
     = Success 200 (Message ''Vehicle exited successfully.'')"
    by (simp add: server_routes exit_vehicle_def sample_db_def)
  have ids: "map v_id (vehicles (snd (server demo_platform 1000 ?c sample_db))) = [1]"
    "map v_id (vehicles (snd (server demo_platform 1000 (MarkExit 1) sample_db))) = [1]"
    by (simp_all add: server_routes update_vehicle_def exit_vehicle_def for_each_def
        set_vehicle_columns_def sample_db_def)
  note t = exit_time_written_by_every_exit [OF sample_vehicle_keys_ok mem, of ?c demo_platform 1000]
  from t ne have "\<forall>v'\<in>set (vehicles (snd (server demo_platform 1000 ?c sample_db))).
      v_id v' = 1 \<longrightarrow> v_exit_time v' = None"
    unfolding v by blast
  from single_row_column [OF ids(1) this]
  have 1: "map v_exit_time (vehicles (snd (server demo_platform 1000 ?c sample_db))) = [None]" .
  from t ok have "\<forall>v'\<in>set (vehicles (snd (server demo_platform 1000 (MarkExit 1) sample_db))).
      v_id v' = 1 \<longrightarrow> v_exit_time v' = Some 1000"
    unfolding v by blast
  from single_row_column [OF ids(2) this]
  have 2: "map v_exit_time (vehicles (snd (server demo_platform 1000 (MarkExit 1) sample_db)))
      = [Some 1000]" .
  from sample_vehicle_keys_ok mem 1 ok 2 show ?thesis
    by (intro conjI)
qed

text \<open>
  C9 as stated fails: vehicle 1 exits at time 1000, and a second exit request at time 2000
  is answered 200 again and overwrites the \<^verbatim>\<open>exit_time\<close> 1000 with 2000.
\<close>

theorem repeated_exit_overwrites_exit_time:
  "map v_exit_time (vehicles (snd (server demo_platform 1000 (MarkExit 1) sample_db)))
     = [Some 1000] \<and>
   fst (server demo_platform 2000 (MarkExit 1)
          (snd (server demo_platform 1000 (MarkExit 1) sample_db)))
     = Success 200 (Message ''Vehicle exited successfully.'') \<and>
   map v_exit_time
     (vehicles (snd (server demo_platform 2000 (MarkExit 1)
                       (snd (server demo_platform 1000 (MarkExit 1) sample_db)))))
     = [Some 2000]"
  by (simp add: server_routes exit_vehicle_def sample_db_def)


section \<open>The key conditions hold in every reachable store\<close>

lemma invoice_transaction_shape:
  assumes "invoice_transaction vid days req d = Inr (iid, d')"
  shows "iid = invoices_seq d"
    and "invoices_seq d' = Suc (invoices_seq d)"
    and "map i_id (invoices d') = map i_id (invoices d) @ [invoices_seq d]"
    and "\<exists>new. invoice_items d' = invoice_items d @ new \<and>
               list_all (\<lambda>it. ii_invoice_id it = invoices_seq d) new"
    and "\<exists>invs its n. d' = d\<lparr>invoices := invs, invoices_seq := Suc (invoices_seq d),
                              invoice_items := its, invoice_items_seq := n\<rparr>"
proof -
  let ?i = "invoices_seq d"
  define d1 where "d1 = snd (insert_invoice vid days d)"
  have ins: "insert_invoice vid days d = (?i, d1)"
    by (simp add: insert_invoice_def d1_def)
  let ?sv = "case ir_services req of None \<Rightarrow> (Fin 0, d1)
             | Some svcs \<Rightarrow> service_items ?i svcs (Fin 0) d1"
  obtain t1 d2 where sv: "?sv = (t1, d2)"
    by (cases ?sv)
  have "\<exists>new1. d2 = d1\<lparr>invoice_items := invoice_items d1 @ new1,
                    invoice_items_seq := invoice_items_seq d1 + length new1\<rparr>
         \<and> list_all (\<lambda>it. ii_invoice_id it = ?i) new1"
  proof (cases "ir_services req")
    case None
    with sv show ?thesis by (intro exI [of _ "[]"]) auto
  next
    case (Some svcs)
    with sv have "service_items ?i svcs (Fin 0) d1 = (t1, d2)" by simp
    from service_items_effect [OF this] show ?thesis by blast
  qed
  then obtain new1 where new1:
    "d2 = d1\<lparr>invoice_items := invoice_items d1 @ new1,
            invoice_items_seq := invoice_items_seq d1 + length new1\<rparr>"
    "list_all (\<lambda>it. ii_invoice_id it = ?i) new1"
    by blast
  let ?ps = "case ir_parts req of None \<Rightarrow> Inr (t1, d2) | Some ps \<Rightarrow> part_items ?i ps t1 d2"
  from assms obtain t3 d3 s x y where
    ps: "?ps = Inr (t3, d3)" and i: "iid = ?i"
    and d': "d' = update_invoice_totals ?i s x y d3"
    unfolding invoice_transaction_def Let_def ins prod.case sv
    by (cases ?ps) auto
  have "\<exists>new2. d3 = d2\<lparr>invoice_items := invoice_items d2 @ new2,
                    invoice_items_seq := invoice_items_seq d2 + length new2\<rparr>
         \<and> list_all (\<lambda>it. ii_invoice_id it = ?i) new2"
  proof (cases "ir_parts req")
    case None
    with ps show ?thesis by (intro exI [of _ "[]"]) auto
  next
    case (Some pls)
    with ps have "part_items ?i pls t1 d2 = Inr (t3, d3)" by simp
    from part_items_effect [OF this] show ?thesis by blast
  qed
  then obtain new2 where new2:
    "d3 = d2\<lparr>invoice_items := invoice_items d2 @ new2,
            invoice_items_seq := invoice_items_seq d2 + length new2\<rparr>"
    "list_all (\<lambda>it. ii_invoice_id it = ?i) new2"
    by blast
  have ids: "map i_id (map (\<lambda>i. if i_id i = k then i\<lparr>i_subtotal := s, i_tax := x, i_total := y\<rparr>
                                  else i) xs) = map i_id xs" for k xs
    by (induction xs) auto
  show "iid = ?i" by (rule i)
  show "invoices_seq d' = Suc ?i"
    by (simp add: d' update_invoice_totals_def new2(1) new1(1) d1_def insert_invoice_def)
  show "map i_id (invoices d') = map i_id (invoices d) @ [?i]"
    unfolding d' update_invoice_totals_def
    by (simp add: ids new2(1) new1(1) d1_def insert_invoice_def del: map_map)
  have "invoice_items d' = invoice_items d @ (new1 @ new2)"
    by (simp add: d' update_invoice_totals_def new2(1) new1(1) d1_def insert_invoice_def)
  moreover have "list_all (\<lambda>it. ii_invoice_id it = ?i) (new1 @ new2)"
    using new1(2) new2(2) by simp
  ultimately show "\<exists>new. invoice_items d' = invoice_items d @ new \<and>
               list_all (\<lambda>it. ii_invoice_id it = ?i) new"
    by blast
  show "\<exists>invs its n. d' = d\<lparr>invoices := invs, invoices_seq := Suc ?i,
                              invoice_items := its, invoice_items_seq := n\<rparr>"
    unfolding d' update_invoice_totals_def new2(1) new1(1) d1_def insert_invoice_def
    by (intro exI [of _ "invoices d'"] exI [of _ "invoice_items d'"]
          exI [of _ "invoice_items_seq d'"])
       (simp add: d' update_invoice_totals_def new2(1) new1(1) d1_def insert_invoice_def)
qed

lemma create_invoice_keeps_invoice_keys:
  assumes "invoice_keys_ok d"
  shows "invoice_keys_ok (snd (create_invoice req d))"
proof (cases "create_invoice req d")
  case (Pair res d')
  show ?thesis
  proof (cases res)
    case (Failure code msg)
    with Pair have "d' = d"
      by (auto simp: create_invoice_def split: if_splits option.splits sum.splits)
    with Pair assms show ?thesis by simp
  next
    case (Success code body)
    with Pair obtain vid days iid where
      tx: "invoice_transaction vid days req d = Inr (iid, d')"
      by (auto simp: create_invoice_def split: if_splits option.splits sum.splits)
    note sh = invoice_transaction_shape [OF tx]
    from sh(4) obtain new where new: "invoice_items d' = invoice_items d @ new"
      "list_all (\<lambda>it. ii_invoice_id it = invoices_seq d) new"
      by blast
    have "list_all (\<lambda>k. k < Suc (invoices_seq d)) (map i_id (invoices d'))"
      using assms unfolding sh(3)
      by (auto simp: invoice_keys_ok_def list_all_iff)
    moreover have "list_all (\<lambda>it. ii_invoice_id it < Suc (invoices_seq d)) (invoice_items d')"
      using assms new by (auto simp: invoice_keys_ok_def list_all_iff)
    ultimately have "invoice_keys_ok d'"
      by (simp add: invoice_keys_ok_def sh(2) list_all_iff)
    with Pair show ?thesis by simp
  qed
qed

lemma server_keeps_invoice_keys:
  assumes "invoice_keys_ok d"
  shows "invoice_keys_ok (snd (server P now c d))"
proof (cases c)
  case (CreateInvoice ib)
  with assms show ?thesis
    by (simp add: server_routes create_invoice_keeps_invoice_keys)
next
  case (CreateVehicle vb)
  with assms show ?thesis
    by (auto simp: server_routes create_vehicle_def Let_def for_each_inserts
        invoice_keys_ok_def split: option.splits)
next
  case (UpdateVehicle i vb)
  with assms show ?thesis
    by (auto simp: server_routes update_vehicle_def Let_def for_each_inserts
        invoice_keys_ok_def split: option.splits list.splits)
qed (use assms in \<open>auto simp: server_routes server_remove_vehicle create_part_def update_part_def
      delete_part_def create_worker_def delete_worker_def assign_worker_def
      update_service_status_def delete_invoice_def add_payment_def exit_vehicle_def
      delete_vehicle_def Let_def invoice_keys_ok_def list_all_iff
      split: option.splits list.splits\<close>)

lemma map_keeps_ids:
  "map v_id (map (\<lambda>v. if v_id v = i then set_vehicle_columns p ow c vb v else v) xs)
     = map v_id xs"
  by (induction xs) (auto simp: set_vehicle_columns_def)

lemma exit_keeps_ids:
  "map v_id (map (\<lambda>v. if v_id v = i then v\<lparr>v_exit_time := t\<rparr> else v) xs) = map v_id xs"
  by (induction xs) auto

lemma vehicle_keys_ok_ids:
  "vehicle_keys_ok d =
     (distinct (map v_id (vehicles d)) \<and> (\<forall>k\<in>set (map v_id (vehicles d)). k < vehicles_seq d))"
  by (auto simp: vehicle_keys_ok_def list_all_iff)

lemma server_keeps_vehicle_keys:
  assumes "vehicle_keys_ok d"
  shows "vehicle_keys_ok (snd (server P now c d))"
proof -
  have keys: "vehicle_keys_ok (d\<lparr>vehicles := xs\<rparr>)"
    if "distinct (map v_id xs)" "set (map v_id xs) \<subseteq> set (map v_id (vehicles d))" for xs
    using assms that by (auto simp: vehicle_keys_ok_def list_all_iff)
  show ?thesis
  proof (cases c)
    case (CreateVehicle vb)
    with assms show ?thesis
      by (auto simp: server_routes create_vehicle_def Let_def for_each_inserts
          vehicle_keys_ok_def list_all_iff split: option.splits)
  next
    case (UpdateVehicle i vb)
    from update_vehicle_vehicles [of i vb d]
    have "map v_id (vehicles (snd (update_vehicle i vb d))) = map v_id (vehicles d)"
      by (auto simp: map_keeps_ids simp del: map_map)
    moreover have "vehicles_seq (snd (update_vehicle i vb d)) = vehicles_seq d"
      by (auto simp: update_vehicle_def Let_def for_each_inserts
          split: option.splits list.splits)
    ultimately show ?thesis
      using assms UpdateVehicle
      by (simp add: server_routes vehicle_keys_ok_ids)
  next
    case (MarkExit i)
    have "vehicle_keys_ok (d\<lparr>vehicles := map (\<lambda>v. if v_id v = i then v\<lparr>v_exit_time := Some now\<rparr>
        else v) (vehicles d)\<rparr>)"
      using assms by (intro keys) (simp_all add: exit_keeps_ids vehicle_keys_ok_def del: map_map)
    with assms MarkExit show ?thesis
      by (simp add: server_routes exit_vehicle_def)
  next
    case (RemoveVehicle i)
    with assms show ?thesis
      by (auto simp: server_remove_vehicle delete_vehicle_def Let_def vehicle_keys_ok_def
          list_all_iff distinct_map_filter)
  next
    case (CreateInvoice ib)
    have "vehicles_seq (snd (create_invoice ib d)) = vehicles_seq d"
    proof (cases "create_invoice ib d")
      case (Pair res d')
      show ?thesis
      proof (cases res)
        case (Failure code msg)
        with Pair have "d' = d"
          by (auto simp: create_invoice_def split: if_splits option.splits sum.splits)
        with Pair show ?thesis by simp
      next
        case (Success code body)
        with Pair obtain vid days iid where
          tx: "invoice_transaction vid days ib d = Inr (iid, d')"
          by (auto simp: create_invoice_def split: if_splits option.splits sum.splits)
        from invoice_transaction_shape(5) [OF tx] Pair show ?thesis
          by auto
      qed
    qed
    with assms CreateInvoice show ?thesis
      by (simp add: server_routes vehicle_keys_ok_def create_invoice_vehicles)
  qed (use assms in \<open>auto simp: server_routes create_part_def update_part_def
      delete_part_def create_worker_def delete_worker_def assign_worker_def
      update_service_status_def delete_invoice_def add_payment_def
      Let_def vehicle_keys_ok_def list_all_iff
      split: option.splits list.splits\<close>)
qed


lemma reachable_keeps_keys:
  assumes "reachable d0 d" and "invoice_keys_ok d0" and "vehicle_keys_ok d0"
  shows "invoice_keys_ok d \<and> vehicle_keys_ok d"
  using assms
proof (induction rule: reachable.induct)
  case start
  then show ?case by simp
next
  case (request d P now c)
  then show ?case
    by (simp add: server_keeps_invoice_keys server_keeps_vehicle_keys)
qed

lemma initial_keys_ok: "invoice_keys_ok initial_db" "vehicle_keys_ok initial_db"
  by (simp_all add: invoice_keys_ok_def vehicle_keys_ok_def initial_db_def)

lemma reachable_keys_ok:
  "reachable initial_db d \<Longrightarrow> invoice_keys_ok d \<and> vehicle_keys_ok d"
  by (rule reachable_keeps_keys [OF _ initial_keys_ok])

text \<open>
  The create-invoice request does persist an invoice whenever it passes the validation
  and every part it names exists.
\<close>

lemma part_items_found:
  "\<forall>pl\<in>set ps. \<exists>p\<in>set (parts d). p_id p = pl_id pl \<Longrightarrow>
     \<exists>t' d'. part_items iid ps t d = Inr (t', d')"
proof (induction ps arbitrary: t d)
  case Nil
  show ?case by simp
next
  case (Cons pl rest)
  from Cons.prems obtain row where row: "find (\<lambda>p. p_id p = pl_id pl) (parts d) = Some row"
    by (cases "find (\<lambda>p. p_id p = pl_id pl) (parts d)") (auto simp: find_None_iff)
  from Cons.prems have "\<forall>q\<in>set rest. \<exists>p\<in>set (parts (insert_invoice_item iid ''part''
      (pl_id pl) (pl_description pl) (pl_quantity pl) (Some (p_purchasing_cost row))
      (Fin (p_selling_cost row))
      (fmul (binary64 (p_selling_cost row)) (Number_of_quantity (pl_quantity pl))) d)).
      p_id p = pl_id q"
    by simp
  from Cons.IH [OF this] row show ?case
    by (simp add: Let_def)
qed

lemma create_invoice_accepted:
  assumes "ir_vehicle_id req = Some vid" "vid \<noteq> 0"
    and "ir_days_in_garage req = Some days" "days \<noteq> 0"
    and "\<forall>pl\<in>set (elements (ir_parts req)). \<exists>p\<in>set (parts d). p_id p = pl_id pl"
  shows "\<exists>d'. create_invoice req d = (Success 201 (InvoiceCreated (invoices_seq d)), d')"
proof -
  let ?i = "invoices_seq d"
  obtain d1 where ins: "insert_invoice vid days d = (?i, d1)" and p1: "parts d1 = parts d"
    by (simp add: insert_invoice_def)
  let ?sv = "case ir_services req of None \<Rightarrow> (Fin 0, d1)
             | Some svcs \<Rightarrow> service_items ?i svcs (Fin 0) d1"
  obtain t1 d2 where sv: "?sv = (t1, d2)"
    by (cases ?sv)
  have p2: "parts d2 = parts d"
  proof (cases "ir_services req")
    case None
    with sv p1 show ?thesis by auto
  next
    case (Some svcs)
    with sv have "service_items ?i svcs (Fin 0) d1 = (t1, d2)" by simp
    from service_items_effect [OF this] p1 show ?thesis by auto
  qed
  have "\<exists>t3 d3. (case ir_parts req of None \<Rightarrow> Inr (t1, d2)
                 | Some ps \<Rightarrow> part_items ?i ps t1 d2) = Inr (t3, d3)"
  proof (cases "ir_parts req")
    case None
    then show ?thesis by simp
  next
    case (Some ps)
    with assms(5) p2 have "\<forall>pl\<in>set ps. \<exists>p\<in>set (parts d2). p_id p = pl_id pl"
      by simp
    from part_items_found [OF this] Some show ?thesis by simp
  qed
  then obtain t3 d3 where "(case ir_parts req of None \<Rightarrow> Inr (t1, d2)
                 | Some ps \<Rightarrow> part_items ?i ps t1 d2) = Inr (t3, d3)"
    by blast
  then have "\<exists>d'. invoice_transaction vid days req d = Inr (?i, d')"
    unfolding invoice_transaction_def Let_def ins prod.case sv by simp
  with assms(1-4) show ?thesis
    by (auto simp: create_invoice_def)
qed

end
